theory Spec2Isabelle
  imports Main
begin

section \<open>JavaScript values and built-ins used by the library\<close>

text \<open>
  The primitive values that occur as cell contents, document fields, selectors and operator
  operands.  Numbers are the integers and \<open>NaN\<close>: the integers of magnitude below
  \<open>2 ^ 53\<close> are doubles, and sums and differences in that range are exact.  Numbers with
  a fractional part and the infinities are not values of cells; the column numbers, which
  can be of any size, are doubles of their own type.
\<close>

datatype jsval = Undefined | Null | Bool bool | NaN | Num int | Str string

text \<open>An array element: \<open>None\<close> is a hole of a sparse array.\<close>

type_synonym jsarray = "jsval option list"

text \<open>An object with string keys, listed in the order of \<open>Object.keys\<close>.\<close>

type_synonym 'a jsobject = "(string \<times> 'a) list"

datatype error = Error string | TypeError | RangeError | SyntaxError | TransportError

subsection \<open>Number to string\<close>

function nat_digits :: "nat \<Rightarrow> string" where
  "nat_digits n =
     (if n < 10 then [char_of (48 + n)] else nat_digits (n div 10) @ [char_of (48 + n mod 10)])"
  by pat_completeness auto
termination
  by (relation "measure id") auto

declare nat_digits.simps [simp del]

definition int_to_string :: "int \<Rightarrow> string" where
  "int_to_string n = (if n < 0 then CHR ''-'' # nat_digits (nat (- n)) else nat_digits (nat n))"

text \<open>\<open>String(v)\<close>. Decimal notation is what JavaScript prints for integers below \<open>10 ^ 21\<close>.\<close>

fun js_String :: "jsval \<Rightarrow> string" where
  "js_String Undefined = ''undefined''"
| "js_String Null = ''null''"
| "js_String (Bool b) = (if b then ''true'' else ''false'')"
| "js_String NaN = ''NaN''"
| "js_String (Num n) = int_to_string n"
| "js_String (Str s) = s"

text \<open>Truthiness, as tested by \<open>if (v)\<close>, \<open>!v\<close> and \<open>v || w\<close>.\<close>

fun truthy :: "jsval \<Rightarrow> bool" where
  "truthy Undefined = False"
| "truthy Null = False"
| "truthy (Bool b) = b"
| "truthy NaN = False"
| "truthy (Num n) = (n \<noteq> 0)"
| "truthy (Str s) = (s \<noteq> [])"

definition js_or :: "jsval \<Rightarrow> jsval \<Rightarrow> jsval" where
  "js_or v w = (if truthy v then v else w)"

text \<open>\<open>a === b\<close> on primitives: \<open>NaN\<close> differs from itself.\<close>

definition strict_eq :: "jsval \<Rightarrow> jsval \<Rightarrow> bool" where
  "strict_eq a b = (a = b \<and> a \<noteq> NaN)"

subsection \<open>String to number\<close>

definition is_digit :: "char \<Rightarrow> bool" where
  "is_digit c = (48 \<le> (of_char c :: nat) \<and> (of_char c :: nat) \<le> 57)"

definition is_upper :: "char \<Rightarrow> bool" where
  "is_upper c = (65 \<le> (of_char c :: nat) \<and> (of_char c :: nat) \<le> 90)"

text \<open>The ASCII members of the white space and line terminator classes.\<close>

definition is_space :: "char \<Rightarrow> bool" where
  "is_space c = ((of_char c :: nat) \<in> {9, 10, 11, 12, 13, 32})"

text \<open>The value of a character as a digit of the given radix, if it is one.\<close>

definition digit_value :: "nat \<Rightarrow> char \<Rightarrow> nat option" where
  "digit_value radix c =
     (let k = (of_char c :: nat);
          d = (if 48 \<le> k \<and> k \<le> 57 then k - 48
               else if 97 \<le> k \<and> k \<le> 122 then k - 87
               else if 65 \<le> k \<and> k \<le> 90 then k - 55
               else 36)
      in if d < radix then Some d else None)"

definition is_radix_digit :: "nat \<Rightarrow> char \<Rightarrow> bool" where
  "is_radix_digit radix c = (digit_value radix c \<noteq> None)"

definition digits_value :: "nat \<Rightarrow> string \<Rightarrow> nat" where
  "digits_value radix ds = foldl (\<lambda>acc c. acc * radix + the (digit_value radix c)) 0 ds"

text \<open>\<open>/^\d+$/.test(s)\<close>.\<close>

definition all_digits :: "string \<Rightarrow> bool" where
  "all_digits s = (s \<noteq> [] \<and> list_all is_digit s)"

text \<open>\<open>/^[A-Z]+$/.test(s)\<close>.\<close>

definition all_upper :: "string \<Rightarrow> bool" where
  "all_upper s = (s \<noteq> [] \<and> list_all is_upper s)"

text \<open>
  \<open>parseInt(s)\<close> with no radix: leading white space is skipped, a sign is read, a
  \<open>0x\<close> prefix selects radix 16, and the longest prefix of digits is the value;
  \<open>None\<close> is \<open>NaN\<close>.
\<close>

definition parseInt_unsigned :: "string \<Rightarrow> int option" where
  "parseInt_unsigned s =
     (let (radix, body) =
            (case s of
               c0 # c1 # rest \<Rightarrow>
                 if c0 = CHR ''0'' \<and> (c1 = CHR ''x'' \<or> c1 = CHR ''X'') then (16, rest) else (10, s)
             | _ \<Rightarrow> (10, s));
          ds = takeWhile (is_radix_digit radix) body
      in if ds = [] then None else Some (int (digits_value radix ds)))"

definition parseInt_string :: "string \<Rightarrow> int option" where
  "parseInt_string s =
     (case dropWhile is_space s of
        [] \<Rightarrow> None
      | c # cs \<Rightarrow>
          if c = CHR ''-'' then map_option uminus (parseInt_unsigned cs)
          else if c = CHR ''+'' then parseInt_unsigned cs
          else parseInt_unsigned (c # cs))"

definition parseInt :: "jsval \<Rightarrow> int option" where
  "parseInt v = parseInt_string (js_String v)"

text \<open>
  The conversion of a string to a number (\<open>Number(s)\<close>, applied by \<open>-\<close>, \<open>>\<close> and
  \<open><\<close>): white space is trimmed on both sides, the empty string is \<open>0\<close>, and the whole
  rest must be a numeral.  Decimal integers with an optional sign and unsigned
  hexadecimal integers are read; every other string is \<open>NaN\<close> here, which is what
  JavaScript gives except for numerals with a fraction or an exponent, binary and octal
  numerals and \<open>Infinity\<close>, which this model of numbers does not represent.
\<close>

definition trim :: "string \<Rightarrow> string" where
  "trim s = rev (dropWhile is_space (rev (dropWhile is_space s)))"

definition unsigned_decimal :: "string \<Rightarrow> int option" where
  "unsigned_decimal s = (if all_digits s then Some (int (digits_value 10 s)) else None)"

definition stringToNumber :: "string \<Rightarrow> int option" where
  "stringToNumber s =
     (case trim s of
        [] \<Rightarrow> Some 0
      | c # cs \<Rightarrow>
          if c = CHR ''-'' then map_option uminus (unsigned_decimal cs)
          else if c = CHR ''+'' then unsigned_decimal cs
          else if c = CHR ''0'' \<and> cs \<noteq> [] \<and> (hd cs = CHR ''x'' \<or> hd cs = CHR ''X'') then
            (if tl cs \<noteq> [] \<and> list_all (is_radix_digit 16) (tl cs)
             then Some (int (digits_value 16 (tl cs))) else None)
          else unsigned_decimal (c # cs))"

fun toNumber :: "jsval \<Rightarrow> int option" where
  "toNumber Undefined = None"
| "toNumber Null = Some 0"
| "toNumber (Bool b) = Some (if b then 1 else 0)"
| "toNumber NaN = None"
| "toNumber (Num n) = Some n"
| "toNumber (Str s) = stringToNumber s"

definition of_number :: "int option \<Rightarrow> jsval" where
  "of_number n = (case n of None \<Rightarrow> NaN | Some k \<Rightarrow> Num k)"

text \<open>Arithmetic and comparison on numbers that may be \<open>NaN\<close>.\<close>

definition num_add :: "int option \<Rightarrow> int option \<Rightarrow> int option" where
  "num_add a b = (case (a, b) of (Some x, Some y) \<Rightarrow> Some (x + y) | _ \<Rightarrow> None)"

definition num_sub :: "int option \<Rightarrow> int option \<Rightarrow> int option" where
  "num_sub a b = (case (a, b) of (Some x, Some y) \<Rightarrow> Some (x - y) | _ \<Rightarrow> None)"

definition num_lt :: "int option \<Rightarrow> int option \<Rightarrow> bool" where
  "num_lt a b = (case (a, b) of (Some x, Some y) \<Rightarrow> x < y | _ \<Rightarrow> False)"

definition num_le :: "int option \<Rightarrow> int option \<Rightarrow> bool" where
  "num_le a b = (case (a, b) of (Some x, Some y) \<Rightarrow> x \<le> y | _ \<Rightarrow> False)"

text \<open>\<open>a - b\<close> and \<open>a + b\<close> on primitive values: \<open>+\<close> concatenates when a side is a string.\<close>

definition js_minus :: "jsval \<Rightarrow> jsval \<Rightarrow> jsval" where
  "js_minus a b = of_number (num_sub (toNumber a) (toNumber b))"

definition is_Str :: "jsval \<Rightarrow> bool" where
  "is_Str v = (case v of Str s \<Rightarrow> True | _ \<Rightarrow> False)"

definition js_plus :: "jsval \<Rightarrow> jsval \<Rightarrow> jsval" where
  "js_plus a b =
     (if is_Str a \<or> is_Str b then Str (js_String a @ js_String b)
      else of_number (num_add (toNumber a) (toNumber b)))"

subsection \<open>Strings and arrays\<close>

text \<open>\<open>toLowerCase\<close> and \<open>toUpperCase\<close> on the ASCII letters.\<close>

definition lower_char :: "char \<Rightarrow> char" where
  "lower_char c = (if is_upper c then char_of ((of_char c :: nat) + 32) else c)"

definition is_lower :: "char \<Rightarrow> bool" where
  "is_lower c = (97 \<le> (of_char c :: nat) \<and> (of_char c :: nat) \<le> 122)"

definition upper_char :: "char \<Rightarrow> char" where
  "upper_char c = (if is_lower c then char_of ((of_char c :: nat) - 32) else c)"

definition toLowerCase :: "string \<Rightarrow> string" where
  "toLowerCase s = map lower_char s"

definition toUpperCase :: "string \<Rightarrow> string" where
  "toUpperCase s = map upper_char s"

text \<open>\<open>s.includes(t)\<close>.\<close>

fun starts_with :: "string \<Rightarrow> string \<Rightarrow> bool" where
  "starts_with s [] = True"
| "starts_with [] (c # cs) = False"
| "starts_with (d # ds) (c # cs) = (d = c \<and> starts_with ds cs)"

fun str_includes :: "string \<Rightarrow> string \<Rightarrow> bool" where
  "str_includes [] t = (t = [])"
| "str_includes (c # cs) t = (starts_with (c # cs) t \<or> str_includes cs t)"

text \<open>\<open>a.join(sep)\<close>: holes, \<open>undefined\<close> and \<open>null\<close> contribute the empty string.\<close>

definition join_item :: "jsval option \<Rightarrow> string" where
  "join_item v = (case v of None \<Rightarrow> [] | Some Undefined \<Rightarrow> [] | Some Null \<Rightarrow> [] | Some w \<Rightarrow> js_String w)"

fun join :: "string \<Rightarrow> jsarray \<Rightarrow> string" where
  "join sep [] = []"
| "join sep [v] = join_item v"
| "join sep (v # w # vs) = join_item v @ sep @ join sep (w # vs)"

text \<open>\<open>a.slice(b, e)\<close>: negative positions count from the end, both are clamped.\<close>

definition slice :: "int \<Rightarrow> int \<Rightarrow> 'a list \<Rightarrow> 'a list" where
  "slice b e xs =
     (let len = int (length xs);
          k = (if b < 0 then max (len + b) 0 else min b len);
          final = (if e < 0 then max (len + e) 0 else min e len)
      in take (nat (final - k)) (drop (nat k) xs))"

text \<open>\<open>a[i] = v\<close> on an array: writing past the end leaves holes in between.\<close>

definition array_set :: "nat \<Rightarrow> jsval \<Rightarrow> jsarray \<Rightarrow> jsarray" where
  "array_set i v xs =
     (if i < length xs then xs[i := Some v] else xs @ replicate (i - length xs) None @ [Some v])"

text \<open>\<open>a[i]\<close>: a hole and a position past the end read as \<open>undefined\<close>.\<close>

definition array_get :: "jsarray \<Rightarrow> nat \<Rightarrow> jsval" where
  "array_get xs i = (if i < length xs then (case xs ! i of None \<Rightarrow> Undefined | Some v \<Rightarrow> v) else Undefined)"

text \<open>\<open>o[k]\<close> and \<open>o[k] = v\<close> on an object with string keys.\<close>

definition get_prop :: "jsval jsobject \<Rightarrow> string \<Rightarrow> jsval" where
  "get_prop obj k = (case map_of obj k of None \<Rightarrow> Undefined | Some v \<Rightarrow> v)"

fun set_prop :: "string \<Rightarrow> 'a \<Rightarrow> 'a jsobject \<Rightarrow> 'a jsobject" where
  "set_prop k v [] = [(k, v)]"
| "set_prop k v ((k', v') # kvs) = (if k = k' then (k, v) # kvs else (k', v') # set_prop k v kvs)"

text \<open>
  \<open>a.sort(cmp)\<close> with a comparison that may throw; a \<open>NaN\<close> result counts as \<open>0\<close>.
  The sort is stable.  Which pairs are compared is left to the engine: this one inserts
  each element into the sorted rest.
\<close>

fun sort_insert :: "('a \<Rightarrow> 'a \<Rightarrow> error + int option) \<Rightarrow> 'a \<Rightarrow> 'a list \<Rightarrow> error + 'a list" where
  "sort_insert cmp x [] = Inr [x]"
| "sort_insert cmp x (y # ys) =
     (case cmp x y of
        Inl e \<Rightarrow> Inl e
      | Inr n \<Rightarrow>
          if num_lt (Some 0) n then
            (case sort_insert cmp x ys of Inl e \<Rightarrow> Inl e | Inr zs \<Rightarrow> Inr (y # zs))
          else Inr (x # y # ys))"

fun array_sort :: "('a \<Rightarrow> 'a \<Rightarrow> error + int option) \<Rightarrow> 'a list \<Rightarrow> error + 'a list" where
  "array_sort cmp [] = Inr []"
| "array_sort cmp (x # xs) =
     (case array_sort cmp xs of Inl e \<Rightarrow> Inl e | Inr ys \<Rightarrow> sort_insert cmp x ys)"

section \<open>Double-precision numbers\<close>

text \<open>
  The column numbers are computed from letter sequences of any length with \<open>+\<close>, \<open>-\<close>,
  \<open>*\<close>, \<open>/\<close>, \<open>%\<close> and \<open>Math.pow\<close>, so they are IEEE 754 doubles: \<open>Finite a i\<close> is the
  number \<open>a / 2 ^ i\<close>, which the operations below produce only when it is a double.  The
  two zeros are not told apart: no operation that is used depends on the sign of a zero.
\<close>

datatype double = Finite int nat | PlusInfinity | MinusInfinity | NotANumber

text \<open>The number of binary digits of a positive integer.\<close>

function bit_length :: "int \<Rightarrow> int" where
  "bit_length n = (if n \<le> 0 then 0 else 1 + bit_length (n div 2))"
  by pat_completeness auto
termination
  by (relation "measure nat") auto

declare bit_length.simps [simp del]

text \<open>The exponent \<open>e\<close> with \<open>2 ^ e \<le> n / d < 2 ^ (e + 1)\<close>, for positive \<open>n\<close> and \<open>d\<close>.\<close>

definition floor_log2 :: "int \<Rightarrow> int \<Rightarrow> int" where
  "floor_log2 n d =
     (let t = bit_length n - bit_length d
      in if (if 0 \<le> t then d * 2 ^ nat t \<le> n else d \<le> n * 2 ^ nat (- t)) then t else t - 1)"

text \<open>The integer nearest to \<open>n / d\<close>, the even one of two that are equally near.\<close>

definition nearest_even :: "int \<Rightarrow> int \<Rightarrow> int" where
  "nearest_even n d =
     (let q = n div d; r = n mod d
      in if 2 * r < d then q else if d < 2 * r then q + 1 else if even q then q else q + 1)"

text \<open>
  The double nearest to the positive ratio \<open>n / d\<close>: a significand of 53 bits at the
  exponent of the ratio, of fewer bits at the least exponent \<open>-1074\<close>, and infinity from
  \<open>2 ^ 1024\<close> on.
\<close>

definition round_positive :: "int \<Rightarrow> int \<Rightarrow> double" where
  "round_positive n d =
     (let p = max (floor_log2 n d - 52) (- 1074);
          m = (if 0 \<le> p then nearest_even n (d * 2 ^ nat p) else nearest_even (n * 2 ^ nat (- p)) d)
      in if 971 < p \<or> (p = 971 \<and> 9007199254740992 \<le> m) then PlusInfinity
         else if 0 \<le> p then Finite (m * 2 ^ nat p) 0
         else Finite m (nat (- p)))"

definition negate :: "double \<Rightarrow> double" where
  "negate x =
     (case x of
        Finite a i \<Rightarrow> Finite (- a) i
      | PlusInfinity \<Rightarrow> MinusInfinity
      | MinusInfinity \<Rightarrow> PlusInfinity
      | NotANumber \<Rightarrow> NotANumber)"

text \<open>
  The double nearest to \<open>n / d\<close> for a positive \<open>d\<close>.  An integer of magnitude up to
  \<open>2 ^ 53\<close> is a double and is its own nearest one.
\<close>

definition round_ratio :: "int \<Rightarrow> int \<Rightarrow> double" where
  "round_ratio n d =
     (if d dvd n \<and> \<bar>n div d\<bar> \<le> 9007199254740992 then Finite (n div d) 0
      else if 0 < n then round_positive n d
      else negate (round_positive (- n) d))"

text \<open>\<open>x + y\<close>, \<open>x - y\<close> and \<open>x * y\<close>: the exact result, rounded.\<close>

fun double_add :: "double \<Rightarrow> double \<Rightarrow> double" where
  "double_add (Finite a i) (Finite b j) = round_ratio (a * 2 ^ j + b * 2 ^ i) (2 ^ (i + j))"
| "double_add NotANumber y = NotANumber"
| "double_add x NotANumber = NotANumber"
| "double_add PlusInfinity MinusInfinity = NotANumber"
| "double_add MinusInfinity PlusInfinity = NotANumber"
| "double_add PlusInfinity y = PlusInfinity"
| "double_add MinusInfinity y = MinusInfinity"
| "double_add x PlusInfinity = PlusInfinity"
| "double_add x MinusInfinity = MinusInfinity"

definition double_sub :: "double \<Rightarrow> double \<Rightarrow> double" where
  "double_sub x y = double_add x (negate y)"

definition sign_of :: "double \<Rightarrow> int" where
  "sign_of x =
     (case x of Finite a i \<Rightarrow> sgn a | PlusInfinity \<Rightarrow> 1 | MinusInfinity \<Rightarrow> - 1 | NotANumber \<Rightarrow> 0)"

fun double_mul :: "double \<Rightarrow> double \<Rightarrow> double" where
  "double_mul (Finite a i) (Finite b j) = round_ratio (a * b) (2 ^ (i + j))"
| "double_mul NotANumber y = NotANumber"
| "double_mul x NotANumber = NotANumber"
| "double_mul x y =
     (if sign_of x * sign_of y = 0 then NotANumber
      else if 0 < sign_of x * sign_of y then PlusInfinity else MinusInfinity)"

text \<open>
  \<open>x / d\<close> and \<open>x % d\<close> for a positive integer \<open>d\<close>.  The remainder has the sign of \<open>x\<close>
  and is exact; that of an infinity is \<open>NaN\<close>.
\<close>

definition double_div :: "double \<Rightarrow> int \<Rightarrow> double" where
  "double_div x d = (case x of Finite a i \<Rightarrow> round_ratio a (d * 2 ^ i) | other \<Rightarrow> other)"

definition double_rem :: "double \<Rightarrow> int \<Rightarrow> double" where
  "double_rem x d =
     (case x of
        Finite a i \<Rightarrow> Finite (if 0 \<le> a then a mod (d * 2 ^ i) else - ((- a) mod (d * 2 ^ i))) i
      | other \<Rightarrow> NotANumber)"

text \<open>
  \<open>Math.pow(b, k)\<close> for a positive integer \<open>b\<close> and an exponent \<open>k\<close> that is a natural
  number, taken to be the power rounded once; it is the power itself while that is a
  double, which for \<open>b = 26\<close> is up to \<open>k = 14\<close>.
\<close>

definition Math_pow :: "int \<Rightarrow> nat \<Rightarrow> double" where
  "Math_pow b k = round_ratio (b ^ k) 1"

text \<open>\<open>x > 0\<close>.\<close>

definition positive :: "double \<Rightarrow> bool" where
  "positive x = (case x of Finite a i \<Rightarrow> 0 < a | PlusInfinity \<Rightarrow> True | other \<Rightarrow> False)"

text \<open>
  \<open>String.fromCharCode(x)\<close>: the number is truncated towards zero and reduced modulo
  \<open>2 ^ 16\<close>, an infinity and \<open>NaN\<close> count as 0.  The codes that occur lie between 39 and
  90, or are 0.
\<close>

definition fromCharCode :: "double \<Rightarrow> char" where
  "fromCharCode x =
     (case x of
        Finite a i \<Rightarrow> char_of ((if 0 \<le> a then a div 2 ^ i else - ((- a) div 2 ^ i)) mod 65536)
      | other \<Rightarrow> char_of (0 :: int))"

text \<open>The integer that a double is, \<open>None\<close> for a fraction, an infinity and \<open>NaN\<close>.\<close>

definition to_integer :: "double \<Rightarrow> int option" where
  "to_integer x =
     (case x of
        Finite a i \<Rightarrow> if 2 ^ i dvd a then Some (a div 2 ^ i) else None
      | other \<Rightarrow> None)"

section \<open>Column letters\<close>

text \<open>
  \<open>Sheet.columnToLetter\<close>: the \<open>while (column > 0)\<close> loop, with \<open>letter\<close> as accumulator;
  \<open>temp\<close> is \<open>(column - 1) % 26\<close>.  \<open>None\<close> stands for a loop that does not end.
\<close>

partial_function (option) columnToLetter_loop :: "double \<Rightarrow> string \<Rightarrow> string option" where
  "columnToLetter_loop column letter =
     (if positive column then
        columnToLetter_loop
          (double_div
             (double_sub (double_sub column (double_rem (double_sub column (Finite 1 0)) 26)) (Finite 1 0))
             26)
          (fromCharCode (double_add (double_rem (double_sub column (Finite 1 0)) 26) (Finite 65 0)) # letter)
      else Some letter)"

declare columnToLetter_loop.simps [code]

definition columnToLetter :: "double \<Rightarrow> string option" where
  "columnToLetter column = columnToLetter_loop column []"

text \<open>
  \<open>Spreadsheet.columnLetterToIndex\<close>: the \<open>for\<close> loop over the positions of \<open>letter\<close>;
  at position \<open>i\<close> the exponent \<open>length - i - 1\<close> is the number of characters that follow.
\<close>

fun columnLetterToIndex_loop :: "string \<Rightarrow> double \<Rightarrow> double" where
  "columnLetterToIndex_loop [] column = column"
| "columnLetterToIndex_loop (c # cs) column =
     columnLetterToIndex_loop cs
       (double_add column (double_mul (Finite (of_char c - 64) 0) (Math_pow 26 (length cs))))"

definition columnLetterToIndex :: "string \<Rightarrow> double" where
  "columnLetterToIndex letter = columnLetterToIndex_loop letter (Finite 0 0)"

text \<open>
  The two loops over the integers, without rounding: the bijective numeration in base 26
  that the loops over doubles are compared with.
\<close>

function exact_columnToLetter_loop :: "int \<Rightarrow> string \<Rightarrow> string" where
  "exact_columnToLetter_loop column letter =
     (if column > 0 then
        (let temp = (column - 1) mod 26
         in exact_columnToLetter_loop ((column - temp - 1) div 26) (char_of (temp + 65) # letter))
      else letter)"
  by pat_completeness auto
termination
  by (relation "measure (\<lambda>(column, letter). nat column)") (auto simp: Let_def)

declare exact_columnToLetter_loop.simps [simp del]

definition exact_columnToLetter :: "int \<Rightarrow> string" where
  "exact_columnToLetter column = exact_columnToLetter_loop column []"

fun exact_columnLetterToIndex_loop :: "string \<Rightarrow> int \<Rightarrow> int" where
  "exact_columnLetterToIndex_loop [] column = column"
| "exact_columnLetterToIndex_loop (c # cs) column =
     exact_columnLetterToIndex_loop cs (column + (of_char c - 64) * 26 ^ length cs)"

definition exact_columnLetterToIndex :: "string \<Rightarrow> int" where
  "exact_columnLetterToIndex letter = exact_columnLetterToIndex_loop letter 0"

section \<open>The transport\<close>

text \<open>
  \<open>api.call(method, params)\<close> is the only way out of the library.  A request is the method
  with the parameters the library sets; the constant ones (\<open>spreadsheetId\<close>,
  \<open>includeGridData\<close>, \<open>insertDataOption\<close>, \<open>valueInputOption\<close>, \<open>majorDimension\<close>,
  \<open>fields\<close>) are left out.
\<close>

datatype dimension = ROWS | COLUMNS

datatype batch_request =
    AddSheet string
  | DeleteSheet int
  | DeleteDimension int dimension jsval jsval
  | AppendDimension int dimension int

datatype request =
    SpreadsheetsGet
  | ValuesGet string
  | ValuesAppend string "jsarray list"
  | ValuesBatchUpdate "(string \<times> jsarray list) list"
  | BatchUpdate "batch_request list"
  | FilesGet

record sheet_properties =
  sheetId :: int
  title :: string
  sheetIndex :: int
  sheetType :: string
  rowCount :: int
  columnCount :: int

record raw_cell =
  userEnteredValue :: bool
  formattedValue :: "string option"

text \<open>
  A sheet of the \<open>spreadsheets.get\<close> response: \<open>rowData\<close> is \<open>None\<close> when \<open>sheet.data\<close>,
  \<open>sheet.data[0]\<close> or its \<open>rowData\<close> is missing, and a row is \<open>None\<close> when it has no
  \<open>values\<close>.  The properties of the sheets and of the spreadsheet are taken to be
  present, as the service sends them.
\<close>

record raw_sheet =
  properties :: sheet_properties
  rowData :: "raw_cell list option list option"

record updates =
  spreadsheetId :: string
  updatedRange :: string
  updatedRows :: int

datatype reply = AddSheetReply sheet_properties | OtherReply

datatype response =
    SpreadsheetResponse "raw_sheet list option"
  | ValuesResponse "jsarray list option"
  | AppendResponse updates
  | BatchUpdateResponse "reply list"
  | OtherResponse

text \<open>
  The remote service answers a request given the requests made before it; \<open>None\<close> is a
  rejected call.
\<close>

type_synonym transport = "request list \<Rightarrow> request \<Rightarrow> response option"

section \<open>Grid adapter: class Spreadsheet\<close>

text \<open>A cell of the cached grid: \<open>null\<close>, or \<open>{ text }\<close> where \<open>text\<close> may be undefined.\<close>

datatype grid = NoGrid | Grid "string option"

record sheet = sheet_properties +
  sheet_values :: "grid list list"

text \<open>
  The instance: \<open>this.data\<close>, and the trace of the calls made through \<open>this.api\<close>.
  Of the cached spreadsheet only \<open>sheets\<close> is kept; its \<open>id\<close>, \<open>url\<close>, \<open>title\<close>, \<open>locale\<close>
  and \<open>timezone\<close> are read nowhere.
\<close>

record spreadsheet =
  data :: "sheet list option"
  calls :: "request list"

type_synonym 'a action = "spreadsheet \<Rightarrow> (error + 'a) \<times> spreadsheet"

definition return :: "'a \<Rightarrow> 'a action" where
  "return x s = (Inr x, s)"

definition throw :: "error \<Rightarrow> 'a action" where
  "throw e s = (Inl e, s)"

definition and_then :: "'a action \<Rightarrow> ('a \<Rightarrow> 'b action) \<Rightarrow> 'b action" where
  "and_then m f s = (case m s of (Inl e, s') \<Rightarrow> (Inl e, s') | (Inr x, s') \<Rightarrow> f x s')"

definition call :: "transport \<Rightarrow> request \<Rightarrow> response action" where
  "call api req s =
     (case api (calls s) req of
        None \<Rightarrow> (Inl TransportError, s\<lparr>calls := calls s @ [req]\<rparr>)
      | Some r \<Rightarrow> (Inr r, s\<lparr>calls := calls s @ [req]\<rparr>))"

definition invalidate :: "'a \<Rightarrow> 'a action" where
  "invalidate x s = (Inr x, s\<lparr>data := None\<rparr>)"

subsection \<open>load\<close>

definition load_cell :: "raw_cell \<Rightarrow> grid" where
  "load_cell item = (if userEnteredValue item then Grid (formattedValue item) else NoGrid)"

definition load_sheet :: "raw_sheet \<Rightarrow> sheet" where
  "load_sheet sh =
     sheet_properties.extend (properties sh)
       (sheet.fields
          (case rowData sh of
             None \<Rightarrow> []
           | Some rows \<Rightarrow>
               map (\<lambda>row. case row of None \<Rightarrow> [] | Some cells \<Rightarrow> map load_cell cells) rows))"

text \<open>
  \<open>load\<close> never throws: a rejected call and a response without \<open>sheets\<close> are caught and
  logged, and the result is what was cached, that is nothing.
\<close>

definition load :: "transport \<Rightarrow> spreadsheet \<Rightarrow> sheet list option \<times> spreadsheet" where
  "load api s =
     (case data s of
        Some d \<Rightarrow> (Some d, s)
      | None \<Rightarrow>
          (case call api SpreadsheetsGet s of
             (Inr (SpreadsheetResponse (Some raw)), s') \<Rightarrow>
               (Some (map load_sheet raw), s'\<lparr>data := Some (map load_sheet raw)\<rparr>)
           | (_, s') \<Rightarrow> (None, s')))"

subsection \<open>getSheet\<close>

definition sheet_matches :: "jsval \<Rightarrow> sheet \<Rightarrow> bool" where
  "sheet_matches id' s =
     (js_String (Num (sheetId s)) = js_String (js_or id' (Num 0)) \<or> strict_eq (Str (title s)) id')"

definition getSheet :: "transport \<Rightarrow> jsval \<Rightarrow> sheet option action" where
  "getSheet api id' s =
     (case load api s of
        (None, s') \<Rightarrow> (Inl (Error ''sheet not found''), s')
      | (Some sheets, s') \<Rightarrow> (Inr (find (sheet_matches id') sheets), s'))"

text \<open>
  The guard \<open>if (!selectedSheet) throw new Error('sheet not found')\<close> that follows every
  call of \<open>getSheet\<close> in the other methods.
\<close>

definition selectSheet :: "transport \<Rightarrow> jsval \<Rightarrow> sheet action" where
  "selectSheet api id' =
     and_then (getSheet api id')
       (\<lambda>selectedSheet. case selectedSheet of
            None \<Rightarrow> throw (Error ''sheet not found'')
          | Some sh \<Rightarrow> return sh)"

subsection \<open>request, expand, addSheet, deleteSheet\<close>

definition request :: "transport \<Rightarrow> batch_request list \<Rightarrow> response action" where
  "request api requests = call api (BatchUpdate requests)"

definition expand_requests :: "int \<Rightarrow> int \<Rightarrow> int \<Rightarrow> batch_request list" where
  "expand_requests rows columns sid =
     (if rows \<noteq> 0 then [AppendDimension sid ROWS rows] else []) @
     (if columns \<noteq> 0 then [AppendDimension sid COLUMNS columns] else [])"

text \<open>\<open>expand\<close> returns the response of the request, or \<open>undefined\<close> when none was sent.\<close>

definition expand :: "transport \<Rightarrow> int \<Rightarrow> int \<Rightarrow> int \<Rightarrow> response option action" where
  "expand api rows columns sid =
     (let requests = expand_requests rows columns sid
      in if requests \<noteq> [] then and_then (request api requests) (\<lambda>ret. return (Some ret))
         else return None)"

definition addSheet :: "transport \<Rightarrow> string \<Rightarrow> sheet_properties action" where
  "addSheet api title' =
     and_then (request api [AddSheet title'])
       (\<lambda>result. case result of
            BatchUpdateResponse (AddSheetReply props # replies) \<Rightarrow> invalidate props
          | _ \<Rightarrow> throw TypeError)"

definition deleteSheet :: "transport \<Rightarrow> jsval \<Rightarrow> response action" where
  "deleteSheet api sheet' =
     and_then (selectSheet api sheet')
       (\<lambda>selectedSheet.
          and_then (request api [DeleteSheet (sheetId selectedSheet)]) invalidate)"

subsection \<open>Options\<close>

text \<open>
  The options object that \<open>Sheet.find\<close> hands on to \<open>Spreadsheet.list\<close>,
  \<open>Sheet.valuesToData\<close> and \<open>Sheet.filterData\<close>.  A field that is \<open>None\<close> is not set;
  the flags are read for their truthiness only.  A missing options argument is
  \<open>no_options\<close>.
\<close>

record options =
  sheet :: "jsval option"
  start :: "int option"
  limit :: "int option"
  fresh :: bool
  skip :: "int option"
  sort_opt :: "jsval jsobject option"
  startRow :: "int option"
  column :: bool
  lowercase :: bool
  header :: bool

definition no_options :: options where
  "no_options =
     \<lparr>sheet = None, start = None, limit = None, fresh = False, skip = None, sort_opt = None,
      startRow = None, column = False, lowercase = False, header = False\<rparr>"

subsection \<open>list\<close>

definition quote :: char where
  "quote = CHR 0x27"

definition row_range :: "string \<Rightarrow> jsval \<Rightarrow> jsval \<Rightarrow> string" where
  "row_range sheetTitle from to =
     [quote] @ sheetTitle @ [quote] @ ''!A'' @ js_String from @ '':ZZ'' @ js_String to"

definition grid_text :: "grid \<Rightarrow> jsval" where
  "grid_text g = (case g of NoGrid \<Rightarrow> Null | Grid None \<Rightarrow> Undefined | Grid (Some t) \<Rightarrow> Str t)"

text \<open>The result is \<open>None\<close> when the fresh read has no \<open>values\<close>.\<close>

definition Spreadsheet_list :: "transport \<Rightarrow> options \<Rightarrow> jsarray list option action" where
  "Spreadsheet_list api opts =
     (let limit' = (case limit opts of None \<Rightarrow> 2000000 | Some l \<Rightarrow> l);
          start' = (case start opts of None \<Rightarrow> 1 | Some n \<Rightarrow> n);
          end' = start' + limit' - 1
      in and_then (selectSheet api (case sheet opts of None \<Rightarrow> Undefined | Some v \<Rightarrow> v))
           (\<lambda>selectedSheet.
              if fresh opts then
                and_then (call api (ValuesGet (row_range (title selectedSheet) (Num start') (Num end'))))
                  (\<lambda>result. return (case result of ValuesResponse vs \<Rightarrow> vs | _ \<Rightarrow> None))
              else
                return (Some (map (\<lambda>grids. map (\<lambda>g. Some (grid_text g)) grids)
                                (slice (start' - 1) end' (sheet_values selectedSheet))))))"

subsection \<open>dataToValue\<close>

text \<open>
  A row handed to the adapter: an array of cells, or a sparse mapping from column letters
  or 1-based column numbers to cells.
\<close>

datatype row = RowArray jsarray | RowObject "jsval jsobject"

text \<open>
  The index a key of a sparse mapping stands for, \<open>None\<close> for a key that is skipped
  and for letters whose index is an infinity.  Key \<open>0\<close> gives index \<open>-1\<close>, which sets
  a property of the array that is not an element, as does an index from \<open>2 ^ 32 - 1\<close>
  on.
\<close>

definition key_index :: "string \<Rightarrow> int option" where
  "key_index key =
     (if all_upper key then to_integer (double_sub (columnLetterToIndex key) (Finite 1 0))
      else if all_digits key then map_option (\<lambda>n. n - 1) (parseInt_string key)
      else None)"

definition dataToValue_step :: "jsarray \<Rightarrow> string \<times> jsval \<Rightarrow> jsarray" where
  "dataToValue_step line kv =
     (case key_index (fst kv) of
        None \<Rightarrow> line
      | Some index \<Rightarrow>
          if 0 \<le> index \<and> index < 4294967295 then array_set (nat index) (snd kv) line else line)"

definition dataToValue :: "row \<Rightarrow> jsarray" where
  "dataToValue data' =
     (case data' of
        RowArray cells \<Rightarrow> cells
      | RowObject kvs \<Rightarrow> foldl dataToValue_step [] kvs)"

subsection \<open>append\<close>

text \<open>
  The match of \<open>/^'([\S\s]+?)'!([A-Z]+)(\d+):([A-Z]+)(\d+)$/\<close>: the groups 1 to 5, or
  \<open>None\<close>.  The title is the shortest non-empty one after which the rest matches.
\<close>

definition split_class :: "(char \<Rightarrow> bool) \<Rightarrow> string \<Rightarrow> (string \<times> string) option" where
  "split_class P s = (if takeWhile P s = [] then None else Some (takeWhile P s, dropWhile P s))"

definition match_cells :: "string \<Rightarrow> (string \<times> string \<times> string \<times> string) option" where
  "match_cells s =
     (case split_class is_upper s of
        None \<Rightarrow> None
      | Some (c1, s1) \<Rightarrow>
          (case split_class is_digit s1 of
             None \<Rightarrow> None
           | Some (r1, s2) \<Rightarrow>
               (case s2 of
                  [] \<Rightarrow> None
                | colon # s3 \<Rightarrow>
                    if colon \<noteq> CHR '':'' then None
                    else
                      (case split_class is_upper s3 of
                         None \<Rightarrow> None
                       | Some (c2, s4) \<Rightarrow>
                           (case split_class is_digit s4 of
                              None \<Rightarrow> None
                            | Some (r2, s5) \<Rightarrow> if s5 = [] then Some (c1, r1, c2, r2) else None)))))"

definition match_tail :: "string \<Rightarrow> (string \<times> string \<times> string \<times> string) option" where
  "match_tail s =
     (case s of
        q # bang # rest \<Rightarrow> if q = quote \<and> bang = CHR ''!'' then match_cells rest else None
      | _ \<Rightarrow> None)"

fun match_title :: "string \<Rightarrow> string \<Rightarrow> (string \<times> string \<times> string \<times> string \<times> string) option" where
  "match_title t [] = None"
| "match_title t (c # cs) =
     (case match_tail cs of
        Some m \<Rightarrow> Some (t @ [c], m)
      | None \<Rightarrow> match_title (t @ [c]) cs)"

definition match_range :: "string \<Rightarrow> (string \<times> string \<times> string \<times> string \<times> string) option" where
  "match_range s = (case s of [] \<Rightarrow> None | q # rest \<Rightarrow> if q = quote then match_title [] rest else None)"

text \<open>
  The argument \<open>data\<close> of \<open>append\<close>: one row, or an array of rows.  \<open>append_values\<close> is
  \<open>items.map(item => this.dataToValue(item))\<close> after the test
  \<open>typeof data === 'object' && typeof data[0] !== 'object'\<close> that wraps a single row:
  only \<open>null\<close> is a primitive of type \<open>'object'\<close>, so a row array whose first cell is
  \<open>null\<close> is taken for an array of rows and \<open>dataToValue(null)\<close> throws, and a mapping
  whose key \<open>0\<close> holds \<open>null\<close> is taken for one too and has no \<open>map\<close>.  The empty
  array is wrapped.
\<close>

datatype append_data = OneRow row | ManyRows "row list"

definition append_values :: "append_data \<Rightarrow> error + jsarray list" where
  "append_values data' =
     (case data' of
        OneRow (RowArray cells) \<Rightarrow>
          (case cells of Some Null # rest \<Rightarrow> Inl TypeError | _ \<Rightarrow> Inr [dataToValue (RowArray cells)])
      | OneRow (RowObject kvs) \<Rightarrow>
          (case map_of kvs ''0'' of Some Null \<Rightarrow> Inl TypeError | _ \<Rightarrow> Inr [dataToValue (RowObject kvs)])
      | ManyRows [] \<Rightarrow> Inr [dataToValue (RowArray [])]
      | ManyRows items \<Rightarrow> Inr (map dataToValue items))"

text \<open>
  \<open>value.concat(new Array(columnNo - value.length).fill(''))\<close>: a length that is
  negative, above \<open>2 ^ 32 - 1\<close> or not an integer is a \<open>RangeError\<close>.
\<close>

definition pad_row :: "double \<Rightarrow> jsarray \<Rightarrow> error + jsarray" where
  "pad_row columnNo value =
     (case to_integer (double_sub columnNo (Finite (int (length value)) 0)) of
        None \<Rightarrow> Inl RangeError
      | Some n \<Rightarrow>
          if n < 0 \<or> 4294967295 < n then Inl RangeError
          else Inr (value @ replicate (nat n) (Some (Str []))))"

fun pad_rows :: "double \<Rightarrow> jsarray list \<Rightarrow> error + jsarray list" where
  "pad_rows columnNo [] = Inr []"
| "pad_rows columnNo (value # rest) =
     (case pad_row columnNo value of
        Inl e \<Rightarrow> Inl e
      | Inr v \<Rightarrow> (case pad_rows columnNo rest of Inl e \<Rightarrow> Inl e | Inr vs \<Rightarrow> Inr (v # vs)))"

record append_result =
  ar_spreadsheetId :: string
  ar_sheet :: string
  ar_startRow :: jsval
  ar_endRow :: jsval
  insertedRows :: int

definition all_range :: "string \<Rightarrow> string" where
  "all_range sheetTitle = [quote] @ sheetTitle @ [quote] @ ''!A:ZZ''"

definition Spreadsheet_append :: "transport \<Rightarrow> append_data \<Rightarrow> jsval \<Rightarrow> append_result action" where
  "Spreadsheet_append api data' sheet' =
     and_then (selectSheet api sheet')
       (\<lambda>selectedSheet.
          case append_values data' of
            Inl e \<Rightarrow> throw e
          | Inr values \<Rightarrow>
              and_then (call api (ValuesAppend (all_range (title selectedSheet)) values))
                (\<lambda>result.
                   case result of
                     AppendResponse upd \<Rightarrow>
                       (case match_range (updatedRange upd) of
                          None \<Rightarrow> throw TypeError
                        | Some (m1, m2, m3, m4, m5) \<Rightarrow>
                            (let startRow' = of_number (parseInt_string m3);
                                 endRow' = of_number (parseInt_string m5);
                                 columnNo = columnLetterToIndex m4;
                                 ret = \<lparr>ar_spreadsheetId = spreadsheetId upd, ar_sheet = m1,
                                        ar_startRow = startRow', ar_endRow = endRow',
                                        insertedRows = updatedRows upd\<rparr>
                             in if m2 \<noteq> ''A'' then
                                  (case pad_rows columnNo values of
                                     Inl e \<Rightarrow> throw e
                                   | Inr padded \<Rightarrow>
                                       and_then
                                         (call api (ValuesBatchUpdate
                                            [(row_range (title selectedSheet) startRow' endRow', padded)]))
                                         (\<lambda>r. invalidate ret))
                                else invalidate ret))
                   | _ \<Rightarrow> throw TypeError))"

subsection \<open>update\<close>

text \<open>
  The argument \<open>data\<close> of \<open>update\<close>: an array of \<open>{ row, data }\<close>, or a mapping from row
  numbers to rows.
\<close>

datatype update_data = UpdateArray "(jsval \<times> row) list" | UpdateObject "row jsobject"

definition updateRows :: "update_data \<Rightarrow> (jsval \<times> row) list" where
  "updateRows update =
     (case update of
        UpdateArray items \<Rightarrow> items
      | UpdateObject kvs \<Rightarrow> map (\<lambda>(key, d). (of_number (parseInt_string key), d)) kvs)"

text \<open>
  An array compared or subtracted as a number is first joined with commas and then read
  as a number.
\<close>

definition array_toNumber :: "jsarray \<Rightarrow> int option" where
  "array_toNumber value = stringToNumber (join '','' value)"

text \<open>
  One step of \<open>updateRows.map\<close>: the overruns seen so far and the range written for the
  item.  The column test compares the array \<open>value\<close> itself with \<open>columnCount\<close>.
\<close>

definition update_addRows :: "sheet \<Rightarrow> int \<Rightarrow> jsval \<Rightarrow> int" where
  "update_addRows selectedSheet addRows row' =
     (if num_lt (Some (rowCount selectedSheet)) (toNumber row') \<and>
         num_lt (Some addRows) (num_sub (toNumber row') (Some (rowCount selectedSheet)))
      then (case toNumber row' of None \<Rightarrow> addRows | Some r \<Rightarrow> r - rowCount selectedSheet)
      else addRows)"

definition update_addColumns :: "sheet \<Rightarrow> int \<Rightarrow> jsarray \<Rightarrow> int" where
  "update_addColumns selectedSheet addColumns value =
     (if num_lt (Some (columnCount selectedSheet)) (array_toNumber value) \<and>
         num_lt (Some addColumns) (num_sub (array_toNumber value) (Some (columnCount selectedSheet)))
      then (case array_toNumber value of None \<Rightarrow> addColumns | Some v \<Rightarrow> v - columnCount selectedSheet)
      else addColumns)"

definition update_step ::
  "sheet \<Rightarrow> int \<times> int \<times> (string \<times> jsarray list) list \<Rightarrow> jsval \<times> row \<Rightarrow>
   int \<times> int \<times> (string \<times> jsarray list) list" where
  "update_step selectedSheet acc item =
     (case acc of (addRows, addColumns, ranges) \<Rightarrow>
        (let value = dataToValue (snd item)
         in (update_addRows selectedSheet addRows (fst item),
             update_addColumns selectedSheet addColumns value,
             ranges @ [(row_range (title selectedSheet) (fst item) (fst item), [value])])))"

text \<open>The result \<open>{ updatedRows }\<close>.  \<open>upsert\<close> is \<open>None\<close> when not given and then true.\<close>

definition Spreadsheet_update ::
  "transport \<Rightarrow> update_data option \<Rightarrow> jsval \<Rightarrow> bool option \<Rightarrow> int action" where
  "Spreadsheet_update api update sheet' upsert =
     (case update of
        None \<Rightarrow> return 0
      | Some upd \<Rightarrow>
          and_then (selectSheet api sheet')
            (\<lambda>selectedSheet.
               case foldl (update_step selectedSheet) (0, 0, []) (updateRows upd) of
                 (addRows, addColumns, ranges) \<Rightarrow>
                   and_then
                     (if upsert \<noteq> Some False
                      then expand api addRows addColumns (sheetId selectedSheet)
                      else return None)
                     (\<lambda>expanded.
                        and_then (call api (ValuesBatchUpdate ranges))
                          (\<lambda>r. invalidate (int (length ranges))))))"

subsection \<open>delete\<close>

text \<open>
  The result of \<open>delete\<close>.  It is created with the fields \<open>deletedRowsCount\<close> and
  \<open>deleteColumnsCount\<close>; the column loop adds to \<open>deletedColumnsCount\<close>, a field that is
  undefined until then.
\<close>

record delete_result =
  ok :: int
  deletedRowsCount :: int
  deleteColumnsCount :: int
  deletedColumnsCount :: jsval

text \<open>
  The request for \<open>{ start, limit: 1 }\<close>: \<open>startIndex\<close> is \<open>start - 1\<close> and \<open>endIndex\<close> is
  \<open>start + (limit || 1) - 1\<close>.
\<close>

definition deleteDimension :: "int \<Rightarrow> dimension \<Rightarrow> jsval \<Rightarrow> batch_request" where
  "deleteDimension sid dim start' =
     DeleteDimension sid dim (js_minus start' (Num 1)) (js_minus (js_plus start' (Num 1)) (Num 1))"

definition descending :: "jsval \<Rightarrow> jsval \<Rightarrow> error + int option" where
  "descending a b = Inr (num_sub (toNumber b) (toNumber a))"

text \<open>
  \<open>rows\<close> and \<open>columns\<close> are arrays of positions, \<open>None\<close> when not given.  The count
  made for the columns is \<open>undefined + 1\<close> at the first column.
\<close>

definition Spreadsheet_delete ::
  "transport \<Rightarrow> jsval list option \<Rightarrow> jsval list option \<Rightarrow> jsval \<Rightarrow> delete_result action" where
  "Spreadsheet_delete api rows columns sheet' =
     and_then (selectSheet api sheet')
       (\<lambda>selectedSheet.
          case array_sort descending (case rows of None \<Rightarrow> [] | Some rs \<Rightarrow> rs) of
            Inl e \<Rightarrow> throw e
          | Inr sorted_rows \<Rightarrow>
              (let cols = (case columns of None \<Rightarrow> [] | Some cs \<Rightarrow> cs);
                   requests =
                     map (deleteDimension (sheetId selectedSheet) ROWS) sorted_rows @
                     map (deleteDimension (sheetId selectedSheet) COLUMNS) cols;
                   result =
                     \<lparr>ok = 1, deletedRowsCount = int (length sorted_rows), deleteColumnsCount = 0,
                      deletedColumnsCount = (if cols = [] then Undefined else NaN)\<rparr>
               in if requests \<noteq> []
                  then and_then (request api requests) (\<lambda>r. invalidate result)
                  else invalidate result))"

section \<open>Document engine: class Sheet\<close>

text \<open>
  The parts of the JavaScript engine that the document engine calls and that are taken
  as given: \<open>new RegExp(source)\<close> as the test of the pattern (\<open>None\<close> when the source
  is not a pattern, a \<open>SyntaxError\<close>), \<open>s.replace(new RegExp(source, 'g'), fn)\<close>, and
  \<open>a.localeCompare(b)\<close>.
\<close>

record engine =
  regexp :: "string \<Rightarrow> (string \<Rightarrow> bool) option"
  replace_global :: "string \<Rightarrow> (string \<Rightarrow> string) \<Rightarrow> string \<Rightarrow> string option"
  localeCompare :: "string \<Rightarrow> string \<Rightarrow> int"

text \<open>
  A document is an object whose field \<open>_row\<close> is set first.  The array of documents that
  \<open>valuesToData\<close> and \<open>find\<close> return may carry the header as its property \<open>_header\<close>.
\<close>

type_synonym document = "jsval jsobject"

record documents =
  docs :: "document list"
  attached_header :: "jsarray option"

fun map_error :: "('a \<Rightarrow> error + 'b) \<Rightarrow> 'a list \<Rightarrow> error + 'b list" where
  "map_error f [] = Inr []"
| "map_error f (x # xs) =
     (case f x of
        Inl e \<Rightarrow> Inl e
      | Inr y \<Rightarrow> (case map_error f xs of Inl e \<Rightarrow> Inl e | Inr ys \<Rightarrow> Inr (y # ys)))"

fun filter_error :: "('a \<Rightarrow> error + bool) \<Rightarrow> 'a list \<Rightarrow> error + 'a list" where
  "filter_error f [] = Inr []"
| "filter_error f (x # xs) =
     (case f x of
        Inl e \<Rightarrow> Inl e
      | Inr b \<Rightarrow>
          (case filter_error f xs of
             Inl e \<Rightarrow> Inl e
           | Inr ys \<Rightarrow> Inr (if b then x # ys else ys)))"

subsection \<open>valuesToData\<close>

text \<open>\<open>lowercase && v ? v.toLowerCase() : v\<close>; \<open>map\<close> leaves a hole a hole.\<close>

definition header_cell :: "bool \<Rightarrow> jsval option \<Rightarrow> error + jsval option" where
  "header_cell lower cell =
     (case cell of
        None \<Rightarrow> Inr None
      | Some v \<Rightarrow>
          if lower \<and> truthy v then
            (case v of Str s \<Rightarrow> Inr (Some (Str (toLowerCase s))) | _ \<Rightarrow> Inl TypeError)
          else Inr (Some v))"

text \<open>
  The body of \<open>value.forEach((v, j) => ...)\<close>, which passes over holes.  An array has
  fewer than \<open>2 ^ 32\<close> elements and \<open>columnToLetter\<close> returns for every column number
  up to \<open>2 ^ 53\<close> (lemma \<open>cell_letter_returns\<close>), so the branch \<open>None\<close> is there for
  the type only.
\<close>

definition cell_step :: "bool \<Rightarrow> jsarray \<Rightarrow> document \<Rightarrow> nat \<times> jsval option \<Rightarrow> document" where
  "cell_step letters hdr json jc =
     (case snd jc of
        None \<Rightarrow> json
      | Some v \<Rightarrow>
          (let h = array_get hdr (fst jc);
               json1 = (if truthy h then set_prop (js_String h) (js_or v (Str [])) json else json)
           in if letters then
                (case columnToLetter (double_add (Finite (int (fst jc)) 0) (Finite 1 0)) of
                   None \<Rightarrow> json1
                 | Some letter \<Rightarrow> set_prop letter (js_or v (Str [])) json1)
              else json1))"

definition row_number :: "int option \<Rightarrow> nat \<Rightarrow> int" where
  "row_number startRow' i =
     (case startRow' of
        None \<Rightarrow> int i + 1
      | Some n \<Rightarrow> if n \<noteq> 0 then n + int i - 1 else int i + 1)"

definition row_document :: "options \<Rightarrow> jsarray \<Rightarrow> nat \<Rightarrow> jsarray \<Rightarrow> document" where
  "row_document opts hdr i value =
     foldl (cell_step (column opts) hdr) [(''_row'', Num (row_number (startRow opts) i))]
       (enumerate 0 value)"

definition skipped :: "nat \<times> jsarray \<Rightarrow> bool" where
  "skipped iv = (fst iv = 0 \<or> join [] (snd iv) = [])"

definition valuesToData :: "jsarray list option \<Rightarrow> options \<Rightarrow> error + documents" where
  "valuesToData values opts =
     (case values of
        None \<Rightarrow> Inr \<lparr>docs = [], attached_header = None\<rparr>
      | Some [] \<Rightarrow> Inr \<lparr>docs = [], attached_header = None\<rparr>
      | Some (first # rest) \<Rightarrow>
          (case map_error (header_cell (lowercase opts)) first of
             Inl e \<Rightarrow> Inl e
           | Inr hdr \<Rightarrow>
               Inr \<lparr>docs = map (\<lambda>iv. row_document opts hdr (fst iv) (snd iv))
                             (filter (\<lambda>iv. \<not> skipped iv) (enumerate 0 (first # rest))),
                    attached_header = (if header opts then Some hdr else None)\<rparr>))"

subsection \<open>buildFilter and buildFilterFn\<close>

text \<open>
  The term given for a field of a query: a primitive, a predicate, a \<open>RegExp\<close> (as its
  test on the string of the field), or an object of operators with primitive operands.
\<close>

datatype query_term =
    QPrim jsval
  | QFunction "jsval \<Rightarrow> bool"
  | QRegExp "string \<Rightarrow> bool"
  | QObject "jsval jsobject"

type_synonym query = "query_term jsobject"

text \<open>A compiled term \<open>{ key, type, value }\<close>: the constructor is the type.\<close>

datatype matcher =
    TString string
  | TPattern "string \<Rightarrow> bool"
  | TContains jsval
  | TGt jsval
  | TLt jsval
  | TLte jsval
  | TGte jsval
  | TEmpty jsval
  | TFunction "jsval \<Rightarrow> bool"

type_synonym filter_term = "string \<times> matcher"

text \<open>The \<open>switch (op)\<close>: it has no default branch.\<close>

definition op_terms :: "string \<Rightarrow> string \<times> jsval \<Rightarrow> filter_term list" where
  "op_terms key opv =
     (if fst opv = ''$contains'' then [(key, TContains (snd opv))]
      else if fst opv = ''$gt'' then [(key, TGt (snd opv))]
      else if fst opv = ''$lt'' then [(key, TLt (snd opv))]
      else if fst opv = ''$lte'' then [(key, TLte (snd opv))]
      else if fst opv = ''$gte'' then [(key, TGte (snd opv))]
      else if fst opv = ''$empty'' then [(key, TEmpty (snd opv))]
      else [])"

text \<open>\<open>term.replace(/\*/g, '(.*?)')\<close>.\<close>

definition replace_stars :: "string \<Rightarrow> string" where
  "replace_stars s = concat (map (\<lambda>c. if c = CHR ''*'' then ''(.*?)'' else [c]) s)"

definition key_terms :: "engine \<Rightarrow> string \<times> query_term \<Rightarrow> error + filter_term list" where
  "key_terms js kt =
     (case snd kt of
        QPrim (Str s) \<Rightarrow>
          if CHR ''*'' \<in> set s then
            (case regexp js (''^'' @ replace_stars s @ ''$'') of
               None \<Rightarrow> Inl SyntaxError
             | Some test \<Rightarrow> Inr [(fst kt, TPattern test)])
          else Inr [(fst kt, TString s)]
      | QFunction f \<Rightarrow> Inr [(fst kt, TFunction f)]
      | QRegExp test \<Rightarrow> Inr [(fst kt, TPattern test)]
      | QObject ops \<Rightarrow> Inr (concat (map (op_terms (fst kt)) ops))
      | QPrim Null \<Rightarrow> Inl TypeError
      | QPrim v \<Rightarrow> Inr [(fst kt, TString (js_String v))])"

definition buildFilter :: "engine \<Rightarrow> query option \<Rightarrow> error + filter_term list" where
  "buildFilter js query' =
     (case query' of
        None \<Rightarrow> Inr []
      | Some q \<Rightarrow>
          (case map_error (key_terms js) q of Inl e \<Rightarrow> Inl e | Inr ts \<Rightarrow> Inr (concat ts)))"

text \<open>The callback of \<open>filter.some\<close>: whether the item fails the term.\<close>

definition fails :: "document \<Rightarrow> filter_term \<Rightarrow> error + bool" where
  "fails item f =
     (let itemValue = get_prop item (fst f)
      in case snd f of
           TString value \<Rightarrow> Inr (js_String itemValue \<noteq> value)
         | TPattern test \<Rightarrow> Inr (\<not> test (js_String itemValue))
         | TContains value \<Rightarrow>
             (case itemValue of
                Str s \<Rightarrow> Inr (\<not> str_includes s (js_String value))
              | _ \<Rightarrow> Inl TypeError)
         | TGt value \<Rightarrow> Inr (num_le (parseInt itemValue) (toNumber value))
         | TLt value \<Rightarrow> Inr (num_le (toNumber value) (parseInt itemValue))
         | TGte value \<Rightarrow> Inr (num_lt (parseInt itemValue) (toNumber value))
         | TLte value \<Rightarrow> Inr (num_lt (toNumber value) (parseInt itemValue))
         | TEmpty value \<Rightarrow> Inr (if truthy value then truthy itemValue else \<not> truthy itemValue)
         | TFunction f \<Rightarrow> Inr (\<not> f itemValue))"

fun some_fails :: "document \<Rightarrow> filter_term list \<Rightarrow> error + bool" where
  "some_fails item [] = Inr False"
| "some_fails item (f # fs) =
     (case fails item f of
        Inl e \<Rightarrow> Inl e
      | Inr b \<Rightarrow> if b then Inr True else some_fails item fs)"

definition filterFn :: "filter_term list \<Rightarrow> document \<Rightarrow> error + bool" where
  "filterFn filter' item = (case some_fails item filter' of Inl e \<Rightarrow> Inl e | Inr b \<Rightarrow> Inr (\<not> b))"

definition buildFilterFn :: "engine \<Rightarrow> query \<Rightarrow> error + (document \<Rightarrow> error + bool)" where
  "buildFilterFn js query' =
     (case buildFilter js (Some query') of Inl e \<Rightarrow> Inl e | Inr filter' \<Rightarrow> Inr (filterFn filter'))"

subsection \<open>buildSortFn\<close>

text \<open>\<open>typeof v === 'number'\<close>.\<close>

definition is_number :: "jsval \<Rightarrow> bool" where
  "is_number v = (case v of Num n \<Rightarrow> True | NaN \<Rightarrow> True | _ \<Rightarrow> False)"

text \<open>The number compared for a key once the comparison is numeric.\<close>

definition sort_number :: "jsval \<Rightarrow> int option" where
  "sort_number v = (if is_number v then toNumber v else parseInt v)"

text \<open>\<open>if (desc && n !== 0) n = n > 0 ? -1 : 1\<close>, where \<open>NaN\<close> differs from \<open>0\<close>.\<close>

definition flip_desc :: "bool \<Rightarrow> int option \<Rightarrow> int option" where
  "flip_desc desc n = (if desc \<and> n \<noteq> Some 0 then (if num_lt (Some 0) n then Some (- 1) else Some 1) else n)"

fun sort_compare :: "engine \<Rightarrow> jsval jsobject \<Rightarrow> document \<Rightarrow> document \<Rightarrow> error + int option" where
  "sort_compare js [] a b = Inr (Some 0)"
| "sort_compare js (kw # rest) a b =
     (let av = get_prop a (fst kw);
          bv = get_prop b (fst kw);
          desc = num_lt (toNumber (snd kw)) (Some 0)
      in case (if (all_digits (js_String av) \<and> all_digits (js_String bv)) \<or> (is_number av \<and> is_number bv)
               then Inr (num_sub (sort_number av) (sort_number bv))
               else (case av of
                       Str s \<Rightarrow> Inr (Some (localeCompare js s (js_String bv)))
                     | _ \<Rightarrow> Inl TypeError)) of
           Inl e \<Rightarrow> Inl e
         | Inr n \<Rightarrow>
             if flip_desc desc n \<noteq> Some 0 then Inr (flip_desc desc n) else sort_compare js rest a b)"

definition buildSortFn ::
  "engine \<Rightarrow> jsval jsobject option \<Rightarrow> (document \<Rightarrow> document \<Rightarrow> error + int option) option" where
  "buildSortFn js sort' =
     (case sort' of
        None \<Rightarrow> None
      | Some keys \<Rightarrow> if keys = [] then None else Some (sort_compare js keys))"

subsection \<open>filterData\<close>

definition filterData :: "engine \<Rightarrow> documents \<Rightarrow> query option \<Rightarrow> options \<Rightarrow> error + documents" where
  "filterData js data' query' opts =
     (if docs data' = [] then Inr data'
      else
        (let skip' = (case skip opts of None \<Rightarrow> 0 | Some n \<Rightarrow> n);
             limit' = (case limit opts of None \<Rightarrow> 0 | Some n \<Rightarrow> n)
         in case buildFilterFn js (case query' of None \<Rightarrow> [] | Some q \<Rightarrow> q) of
              Inl e \<Rightarrow> Inl e
            | Inr fn \<Rightarrow>
                (case filter_error fn (docs data') of
                   Inl e \<Rightarrow> Inl e
                 | Inr result \<Rightarrow>
                     (case (case buildSortFn js (sort_opt opts) of
                              None \<Rightarrow> Inr result
                            | Some sortFn \<Rightarrow> array_sort sortFn result) of
                        Inl e \<Rightarrow> Inl e
                      | Inr ordered \<Rightarrow>
                          Inr \<lparr>docs = (if skip' > 0 \<or> limit' > 0
                                       then slice skip' (skip' + limit') ordered else ordered),
                               attached_header = attached_header data'\<rparr>))))"

subsection \<open>find, findOne, getHeader, updateHeader\<close>

text \<open>
  \<open>this_sheet\<close> is \<open>this.options.sheet\<close>; a \<open>sheet\<close> among the options of the call
  replaces it in \<open>{ sheet: this.options.sheet, ...options }\<close>.
\<close>

definition lift :: "error + 'a \<Rightarrow> 'a action" where
  "lift r = (case r of Inl e \<Rightarrow> throw e | Inr x \<Rightarrow> return x)"

definition Sheet_find ::
  "engine \<Rightarrow> transport \<Rightarrow> jsval \<Rightarrow> query option \<Rightarrow> options \<Rightarrow> documents action" where
  "Sheet_find js api this_sheet query' opts =
     and_then
       (Spreadsheet_list api
          (opts\<lparr>sheet := (case sheet opts of None \<Rightarrow> Some this_sheet | Some v \<Rightarrow> Some v)\<rparr>))
       (\<lambda>values.
          and_then (lift (valuesToData values opts))
            (\<lambda>data'. lift (filterData js data' query' opts)))"

text \<open>\<open>pop()\<close> gives the last document, \<open>None\<close> for \<open>undefined\<close>.\<close>

definition findOne ::
  "engine \<Rightarrow> transport \<Rightarrow> jsval \<Rightarrow> query option \<Rightarrow> options \<Rightarrow> document option action" where
  "findOne js api this_sheet query' opts =
     and_then (Sheet_find js api this_sheet query' (opts\<lparr>limit := Some 1\<rparr>))
       (\<lambda>found. return (if docs found = [] then None else Some (last (docs found))))"

definition getHeader :: "transport \<Rightarrow> jsval \<Rightarrow> jsarray action" where
  "getHeader api this_sheet =
     and_then (Spreadsheet_list api (no_options\<lparr>sheet := Some this_sheet, limit := Some 1\<rparr>))
       (\<lambda>values.
          case values of
            None \<Rightarrow> throw TypeError
          | Some [] \<Rightarrow> return []
          | Some (first # rest) \<Rightarrow> return first)"

definition updateHeader :: "transport \<Rightarrow> jsval \<Rightarrow> jsarray \<Rightarrow> int action" where
  "updateHeader api this_sheet hdr =
     Spreadsheet_update api (Some (UpdateObject [(''1'', RowArray hdr)])) this_sheet None"

subsection \<open>update\<close>

text \<open>
  The operand of an update operator: a primitive, or for \<open>$replace\<close> a mapping from
  substrings to replacements.  The value given for a field of the patch: a primitive or an
  object of operators.
\<close>

datatype operand = OPrim jsval | OObject "jsval jsobject"

datatype patch_value = PPrim jsval | PObject "operand jsobject"

definition operand_String :: "operand \<Rightarrow> string" where
  "operand_String v = (case v of OPrim p \<Rightarrow> js_String p | OObject kvs \<Rightarrow> ''[object Object]'')"

text \<open>
  \<open>Object.keys(v)\<close> with the values \<open>v[k]\<close>: the positions of a string hold its
  characters, \<open>null\<close> and \<open>undefined\<close> have no keys to ask for, other primitives have none.
\<close>

definition operand_props :: "operand \<Rightarrow> error + jsval jsobject" where
  "operand_props v =
     (case v of
        OObject kvs \<Rightarrow> Inr kvs
      | OPrim Null \<Rightarrow> Inl TypeError
      | OPrim Undefined \<Rightarrow> Inl TypeError
      | OPrim (Str s) \<Rightarrow> Inr (map (\<lambda>ic. (nat_digits (fst ic), Str [snd ic])) (enumerate 0 s))
      | OPrim p \<Rightarrow> Inr [])"

fun join_strings :: "string \<Rightarrow> string list \<Rightarrow> string" where
  "join_strings sep [] = []"
| "join_strings sep [k] = k"
| "join_strings sep (k # l # ks) = k @ sep @ join_strings sep (l # ks)"

text \<open>\<open>header.indexOf(key) + 1\<close>.\<close>

fun indexOf :: "jsarray \<Rightarrow> jsval \<Rightarrow> int" where
  "indexOf [] v = - 1"
| "indexOf (c # cs) v =
     (if (case c of None \<Rightarrow> False | Some w \<Rightarrow> strict_eq w v) then 0
      else (if indexOf cs v = - 1 then - 1 else indexOf cs v + 1))"

text \<open>
  The object \<open>line\<close>, whose keys are column indices: \<open>Object.keys\<close> lists such keys in
  ascending order.
\<close>

fun set_line :: "nat \<Rightarrow> jsval \<Rightarrow> (nat \<times> jsval) list \<Rightarrow> (nat \<times> jsval) list" where
  "set_line i v [] = [(i, v)]"
| "set_line i v ((j, w) # rest) =
     (if i = j then (i, v) # rest
      else if i < j then (i, v) # (j, w) # rest
      else (j, w) # set_line i v rest)"

definition line_row :: "(nat \<times> jsval) list \<Rightarrow> row" where
  "line_row line = RowObject (map (\<lambda>iv. (nat_digits (fst iv), snd iv)) line)"

text \<open>
  The \<open>switch (k)\<close> on the operator, which gives the new cell or leaves the line as it
  is.  The sum of \<open>$inc\<close> is that of the integers, which is the sum of the doubles, and
  printed with all its digits, while the two numbers and their sum are below \<open>2 ^ 53\<close>
  in magnitude.
\<close>

definition apply_operator :: "engine \<Rightarrow> jsval \<Rightarrow> string \<times> operand \<Rightarrow> error + jsval option" where
  "apply_operator js orgValue kv =
     (let v = snd kv
      in if fst kv = ''$inc'' then
           Inr (Some (Str (js_String (of_number
             (num_add (parseInt_string (operand_String v))
                (if is_number orgValue \<or> all_digits (js_String orgValue)
                 then parseInt orgValue else Some 0))))))
         else if fst kv = ''$append'' then
           Inr (Some (js_plus orgValue (Str (operand_String v))))
         else if fst kv = ''$prepend'' then
           Inr (Some (js_plus (Str (operand_String v)) orgValue))
         else if fst kv = ''$lowercase'' then
           (case orgValue of Str s \<Rightarrow> Inr (Some (Str (toLowerCase s))) | _ \<Rightarrow> Inl TypeError)
         else if fst kv = ''$uppercase'' then
           (case orgValue of Str s \<Rightarrow> Inr (Some (Str (toUpperCase s))) | _ \<Rightarrow> Inl TypeError)
         else if fst kv = ''$replace'' then
           (case operand_props v of
              Inl e \<Rightarrow> Inl e
            | Inr props \<Rightarrow>
                (case orgValue of
                   Str s \<Rightarrow>
                     (case replace_global js (join_strings ''|'' (map fst props))
                             (\<lambda>mv. js_String (get_prop props mv)) s of
                        None \<Rightarrow> Inl SyntaxError
                      | Some r \<Rightarrow> Inr (Some (Str r)))
                 | _ \<Rightarrow>
                     (case regexp js (join_strings ''|'' (map fst props)) of
                        None \<Rightarrow> Inl SyntaxError
                      | Some test \<Rightarrow> Inl TypeError)))
         else Inr None)"

fun apply_operators ::
  "engine \<Rightarrow> jsval \<Rightarrow> nat \<Rightarrow> operand jsobject \<Rightarrow> (nat \<times> jsval) list \<Rightarrow> error + (nat \<times> jsval) list" where
  "apply_operators js orgValue index [] line = Inr line"
| "apply_operators js orgValue index (kv # rest) line =
     (case apply_operator js orgValue kv of
        Inl e \<Rightarrow> Inl e
      | Inr None \<Rightarrow> apply_operators js orgValue index rest line
      | Inr (Some cell) \<Rightarrow> apply_operators js orgValue index rest (set_line index cell line))"

text \<open>The body of \<open>Object.keys(update).forEach(key => ...)\<close> for one document.\<close>

definition patch_field ::
  "engine \<Rightarrow> jsarray option \<Rightarrow> document \<Rightarrow> (nat \<times> jsval) list \<Rightarrow> string \<times> patch_value \<Rightarrow>
   error + (nat \<times> jsval) list" where
  "patch_field js hdr item line kp =
     (case hdr of
        None \<Rightarrow> Inl TypeError
      | Some h \<Rightarrow>
          (let index = nat (indexOf h (Str (fst kp)) + 1);
               orgValue = js_or (get_prop item (fst kp)) (Str [])
           in case snd kp of
                PPrim (Str s) \<Rightarrow> Inr (set_line index (Str s) line)
              | PPrim (Num n) \<Rightarrow> Inr (set_line index (Str (js_String (Num n))) line)
              | PPrim NaN \<Rightarrow> Inr (set_line index (Str (js_String NaN)) line)
              | PPrim Null \<Rightarrow> Inl TypeError
              | PPrim p \<Rightarrow> Inr line
              | PObject ops \<Rightarrow> apply_operators js orgValue index ops line))"

fun patch_fields ::
  "engine \<Rightarrow> jsarray option \<Rightarrow> document \<Rightarrow> patch_value jsobject \<Rightarrow> (nat \<times> jsval) list \<Rightarrow>
   error + (nat \<times> jsval) list" where
  "patch_fields js hdr item [] line = Inr line"
| "patch_fields js hdr item (kp # rest) line =
     (case patch_field js hdr item line kp of
        Inl e \<Rightarrow> Inl e
      | Inr line' \<Rightarrow> patch_fields js hdr item rest line')"

text \<open>
  The body of \<open>data.forEach(item => ...)\<close>: a row already in \<open>updateData\<close> is not added
  again.
\<close>

fun patch_documents ::
  "engine \<Rightarrow> jsarray option \<Rightarrow> patch_value jsobject \<Rightarrow> document list \<Rightarrow> (jsval \<times> row) list \<Rightarrow>
   error + (jsval \<times> row) list" where
  "patch_documents js hdr update [] updateData = Inr updateData"
| "patch_documents js hdr update (item # rest) updateData =
     (case patch_fields js hdr item update [] of
        Inl e \<Rightarrow> Inl e
      | Inr line \<Rightarrow>
          patch_documents js hdr update rest
            (if list_ex (\<lambda>i. strict_eq (fst i) (get_prop item ''_row'')) updateData then updateData
             else updateData @ [(get_prop item ''_row'', line_row line)]))"

definition Sheet_update ::
  "engine \<Rightarrow> transport \<Rightarrow> jsval \<Rightarrow> query option \<Rightarrow> patch_value jsobject \<Rightarrow> int action" where
  "Sheet_update js api this_sheet query' update =
     and_then (Sheet_find js api this_sheet query' (no_options\<lparr>header := True\<rparr>))
       (\<lambda>data'.
          and_then (lift (patch_documents js (attached_header data') update (docs data') []))
            (\<lambda>updateData. Spreadsheet_update api (Some (UpdateArray updateData)) this_sheet None))"

subsection \<open>delete\<close>

text \<open>
  The query is \<open>None\<close> when it is \<open>null\<close> or not given, the values of a query for which
  \<open>!query\<close> holds; a query object, also one without fields, is truthy.
\<close>

definition Sheet_delete ::
  "engine \<Rightarrow> transport \<Rightarrow> jsval \<Rightarrow> query option \<Rightarrow> delete_result action" where
  "Sheet_delete js api this_sheet query' =
     (case query' of
        None \<Rightarrow> throw (Error ''no query specified'')
      | Some q \<Rightarrow>
          and_then (Sheet_find js api this_sheet (Some q) no_options)
            (\<lambda>found.
               Spreadsheet_delete api (Some (map (\<lambda>item. get_prop item ''_row'') (docs found))) None
                 this_sheet))"

section \<open>A small spreadsheet\<close>

text \<open>
  One sheet \<open>S\<close> with identity 0, declared with three rows and two columns: the header
  \<open>name\<close>, \<open>age\<close>, a row that holds only a name, and a full row.
\<close>

definition sample_sheet :: sheet where
  "sample_sheet =
     \<lparr>sheetId = 0, title = ''S'', sheetIndex = 0, sheetType = ''GRID'', rowCount = 3,
      columnCount = 2,
      sheet_values =
        [[Grid (Some ''name''), Grid (Some ''age'')],
         [Grid (Some ''a'')],
         [Grid (Some ''b''), Grid (Some ''7'')]]\<rparr>"

text \<open>An instance that has loaded it and made no call yet.\<close>

definition sample_cache :: spreadsheet where
  "sample_cache = \<lparr>data = Some [sample_sheet], calls = []\<rparr>"

text \<open>A service that accepts every request with an empty answer.\<close>

definition accepting :: transport where
  "accepting history req = Some OtherResponse"


text \<open>An engine in which no source is a pattern and all strings collate alike.\<close>

definition plain_engine :: engine where
  "plain_engine =
     \<lparr>regexp = (\<lambda>source. None), replace_global = (\<lambda>source fn s. None),
      localeCompare = (\<lambda>a b. 0)\<rparr>"

text \<open>The operators that the \<open>switch\<close> of \<open>buildFilter\<close> knows.\<close>

definition known_operators :: "string list" where
  "known_operators = [''$contains'', ''$gt'', ''$lt'', ''$lte'', ''$gte'', ''$empty'']"

section \<open>Notions used in the properties\<close>



section \<open>Properties of the column letters\<close>

lemma round_ratio_exact:
  "d dvd n \<Longrightarrow> \<bar>n div d\<bar> \<le> 9007199254740992 \<Longrightarrow> round_ratio n d = Finite (n div d) 0"
  by (simp add: round_ratio_def)

lemma double_add_exact:
  "\<bar>a + b\<bar> \<le> 9007199254740992 \<Longrightarrow> double_add (Finite a 0) (Finite b 0) = Finite (a + b) 0"
  by (simp add: round_ratio_exact)

lemma double_sub_exact:
  "\<bar>a - b\<bar> \<le> 9007199254740992 \<Longrightarrow> double_sub (Finite a 0) (Finite b 0) = Finite (a - b) 0"
  by (simp add: double_sub_def negate_def round_ratio_exact)

lemma double_mul_exact:
  "\<bar>a * b\<bar> \<le> 9007199254740992 \<Longrightarrow> double_mul (Finite a 0) (Finite b 0) = Finite (a * b) 0"
  by (simp add: round_ratio_exact)

lemma double_div_exact:
  "d dvd a \<Longrightarrow> \<bar>a div d\<bar> \<le> 9007199254740992 \<Longrightarrow> double_div (Finite a 0) d = Finite (a div d) 0"
  by (simp add: double_div_def round_ratio_exact)

lemma double_rem_exact: "0 \<le> a \<Longrightarrow> double_rem (Finite a 0) d = Finite (a mod d) 0"
  by (simp add: double_rem_def)

lemma Math_pow_exact: "b ^ k \<le> 9007199254740992 \<Longrightarrow> 0 \<le> b \<Longrightarrow> Math_pow b k = Finite (b ^ k) 0"
  by (simp add: Math_pow_def round_ratio_exact)

lemma fromCharCode_exact: "0 \<le> n \<Longrightarrow> fromCharCode (Finite n 0) = char_of n"
proof -
  assume n: "0 \<le> n"
  have "(256 :: int) dvd 65536" by simp
  then have "n mod 65536 mod 256 = n mod 256" by (rule mod_mod_cancel)
  then have "(char_of (n mod 65536) :: char) = char_of n"
    by (metis char_of_mod_256)
  then show ?thesis using n by (simp add: fromCharCode_def)
qed

lemma loop_step:
  assumes "0 < n" and "n \<le> 9007199254740992"
  shows "columnToLetter_loop (Finite n 0) acc =
         columnToLetter_loop (Finite ((n - 1) div 26) 0) (char_of ((n - 1) mod 26 + 65) # acc)"
proof -
  let ?t = "(n - 1) mod 26"
  have t: "0 \<le> ?t" "?t < 26" by simp_all
  have s1: "double_sub (Finite n 0) (Finite 1 0) = Finite (n - 1) 0"
    using assms by (simp add: double_sub_exact)
  have r: "double_rem (Finite (n - 1) 0) 26 = Finite ?t 0"
    using assms by (simp add: double_rem_exact)
  have s2: "double_sub (Finite n 0) (Finite ?t 0) = Finite (n - ?t) 0"
    using assms t by (intro double_sub_exact) linarith
  have s3: "double_sub (Finite (n - ?t) 0) (Finite 1 0) = Finite (n - ?t - 1) 0"
    using assms t by (intro double_sub_exact) linarith
  have e: "n - ?t - 1 = 26 * ((n - 1) div 26)"
    using mult_div_mod_eq [of 26 "n - 1"] by linarith
  have q: "0 \<le> (n - 1) div 26" "(n - 1) div 26 \<le> n" using assms by auto
  have d: "double_div (Finite (n - ?t - 1) 0) 26 = Finite ((n - 1) div 26) 0"
    unfolding e using q assms by (subst double_div_exact) auto
  have a: "double_add (Finite ?t 0) (Finite 65 0) = Finite (?t + 65) 0"
    using t by (intro double_add_exact) linarith
  have c: "fromCharCode (Finite (?t + 65) 0) = char_of (?t + 65)"
    using t by (intro fromCharCode_exact) linarith
  have p: "positive (Finite n 0)" using assms by (simp add: positive_def)
  show ?thesis
    by (subst columnToLetter_loop.simps) (simp only: p s1 r s2 s3 d a c if_True)
qed


lemma letter_loop_exact:
  "0 \<le> n \<Longrightarrow> n \<le> 9007199254740992 \<Longrightarrow>
   columnToLetter_loop (Finite n 0) acc = Some (exact_columnToLetter_loop n acc)"
proof (induction "nat n" arbitrary: n acc rule: less_induct)
  case less
  show ?case
  proof (cases "0 < n")
    case False
    then have "\<not> positive (Finite n 0)" by (simp add: positive_def)
    then show ?thesis
      using False by (subst columnToLetter_loop.simps) (simp add: exact_columnToLetter_loop.simps)
  next
    case True
    let ?m = "(n - 1) div 26"
    let ?c = "char_of ((n - 1) mod 26 + 65) :: char"
    have m: "nat ?m < nat n" "0 \<le> ?m" "?m \<le> 9007199254740992" using True less.prems by auto
    have e: "n - (n - 1) mod 26 - 1 = 26 * ?m"
      using mult_div_mod_eq [of 26 "n - 1"] by linarith
    have "exact_columnToLetter_loop n acc = exact_columnToLetter_loop ?m (?c # acc)"
      using True e by (subst exact_columnToLetter_loop.simps) (simp add: Let_def)
    then show ?thesis
      using loop_step [OF True less.prems(2), of acc] less.hyps [OF m, of "?c # acc"] by simp
  qed
qed

lemma columnToLetter_exact:
  "0 \<le> n \<Longrightarrow> n \<le> 9007199254740992 \<Longrightarrow> columnToLetter (Finite n 0) = Some (exact_columnToLetter n)"
  by (simp add: columnToLetter_def exact_columnToLetter_def letter_loop_exact)

lemma index_loop_acc: "exact_columnLetterToIndex_loop s a = a + exact_columnLetterToIndex_loop s 0"
proof (induction s arbitrary: a)
  case Nil
  show ?case by simp
next
  case (Cons c cs)
  have "exact_columnLetterToIndex_loop (c # cs) a
        = (a + (of_char c - 64) * 26 ^ length cs) + exact_columnLetterToIndex_loop cs 0"
    using Cons.IH [of "a + (of_char c - 64) * 26 ^ length cs"] by simp
  moreover have "exact_columnLetterToIndex_loop (c # cs) 0
        = (of_char c - 64) * 26 ^ length cs + exact_columnLetterToIndex_loop cs 0"
    using Cons.IH [of "(of_char c - 64) * 26 ^ length cs"] by simp
  ultimately show ?case by simp
qed

lemma index_Cons:
  "exact_columnLetterToIndex (c # cs) = (of_char c - 64) * 26 ^ length cs + exact_columnLetterToIndex cs"
  unfolding exact_columnLetterToIndex_def
  using index_loop_acc [of cs "(of_char c - 64) * 26 ^ length cs"] by simp

lemma index_snoc:
  "exact_columnLetterToIndex (s @ [c]) = 26 * exact_columnLetterToIndex s + (of_char c - 64)"
proof (induction s)
  case Nil
  show ?case by (simp add: exact_columnLetterToIndex_def)
next
  case (Cons x xs)
  have "exact_columnLetterToIndex ((x # xs) @ [c])
        = (of_char x - 64) * 26 ^ (length xs + 1) + exact_columnLetterToIndex (xs @ [c])"
    using index_Cons [of x "xs @ [c]"] by simp
  also have "\<dots> = 26 * ((of_char x - 64) * 26 ^ length xs + exact_columnLetterToIndex xs) + (of_char c - 64)"
    using Cons.IH by (simp add: algebra_simps)
  finally show ?case by (simp add: index_Cons)
qed

lemma is_upper_int: "is_upper c \<longleftrightarrow> 65 \<le> (of_char c :: int) \<and> (of_char c :: int) \<le> 90"
proof -
  have "(of_char c :: int) = int (of_char c)" by (simp add: of_nat_of_char)
  then show ?thesis unfolding is_upper_def by linarith
qed

lemma index_nonneg: "list_all is_upper s \<Longrightarrow> 0 \<le> exact_columnLetterToIndex s"
proof (induction s rule: rev_induct)
  case Nil
  show ?case by (simp add: exact_columnLetterToIndex_def)
next
  case (snoc c s)
  then have "0 \<le> exact_columnLetterToIndex s" and "65 \<le> (of_char c :: int)"
    by (simp_all add: is_upper_int)
  then show ?case by (simp add: index_snoc)
qed

lemma letter_step:
  assumes "is_upper c" and "0 \<le> n"
  shows "exact_columnToLetter_loop (26 * n + (of_char c - 64)) acc = exact_columnToLetter_loop n (c # acc)"
proof -
  let ?d = "of_char c - 64 :: int"
  have d: "1 \<le> ?d" "?d \<le> 26" using assms(1) by (auto simp: is_upper_int)
  have pos: "26 * n + ?d > 0" using d assms(2) by linarith
  have "(26 * n + ?d - 1) mod 26 = (?d - 1 + 26 * n) mod 26" by (simp add: algebra_simps)
  also have "\<dots> = (?d - 1) mod 26" by (simp only: mod_mult_self2)
  also have "\<dots> = ?d - 1" using d by simp
  finally have t: "(26 * n + ?d - 1) mod 26 = ?d - 1" .
  have ch: "char_of (?d - 1 + 65) = c" by simp
  have nx: "(26 * n + ?d - (?d - 1) - 1) div 26 = n" by simp
  show ?thesis
    using pos t ch nx by (subst exact_columnToLetter_loop.simps) (simp add: Let_def)
qed

lemma letter_of_index:
  "list_all is_upper s \<Longrightarrow> exact_columnToLetter_loop (exact_columnLetterToIndex s) acc = s @ acc"
proof (induction s arbitrary: acc rule: rev_induct)
  case Nil
  show ?case by (simp add: exact_columnLetterToIndex_def exact_columnToLetter_loop.simps)
next
  case (snoc c s)
  then have c: "is_upper c" and s: "list_all is_upper s" by simp_all
  show ?case
    using letter_step [OF c index_nonneg [OF s]] snoc.IH [OF s] by (simp add: index_snoc)
qed

lemma letter_unfold:
  "0 < n \<Longrightarrow> exact_columnToLetter_loop n acc =
     exact_columnToLetter_loop ((n - 1) div 26) (char_of ((n - 1) mod 26 + 65) # acc)"
proof -
  assume pos: "0 < n"
  have "(n - (n - 1) mod 26 - 1) div 26 = (n - 1) div 26"
  proof -
    have "n - (n - 1) mod 26 - 1 = 26 * ((n - 1) div 26)"
      using mult_div_mod_eq [of 26 "n - 1"] by linarith
    then show ?thesis by simp
  qed
  then show ?thesis
    using pos by (subst exact_columnToLetter_loop.simps) (simp add: Let_def)
qed

lemma letter_loop_acc: "0 \<le> n \<Longrightarrow> exact_columnToLetter_loop n acc = exact_columnToLetter_loop n [] @ acc"
proof (induction "nat n" arbitrary: n acc rule: less_induct)
  case less
  show ?case
  proof (cases "0 < n")
    case False
    then show ?thesis by (simp add: exact_columnToLetter_loop.simps)
  next
    case True
    let ?m = "(n - 1) div 26"
    let ?c = "char_of ((n - 1) mod 26 + 65) :: char"
    have m: "0 \<le> ?m" "nat ?m < nat n" using True by auto
    have "exact_columnToLetter_loop n acc = exact_columnToLetter_loop ?m [] @ ?c # acc"
      using letter_unfold [OF True, of acc] less.hyps [OF m(2) m(1), of "?c # acc"] by simp
    moreover have "exact_columnToLetter_loop n [] = exact_columnToLetter_loop ?m [] @ [?c]"
      using letter_unfold [OF True, of "[]"] less.hyps [OF m(2) m(1), of "[?c]"] by simp
    ultimately show ?thesis by simp
  qed
qed

lemma letter_snoc:
  "0 < n \<Longrightarrow> exact_columnToLetter n = exact_columnToLetter ((n - 1) div 26) @ [char_of ((n - 1) mod 26 + 65)]"
  unfolding exact_columnToLetter_def
  using letter_unfold [of n "[]"] letter_loop_acc [of "(n - 1) div 26" "[char_of ((n - 1) mod 26 + 65)]"]
  by simp

lemma index_of_letter: "0 \<le> n \<Longrightarrow> exact_columnLetterToIndex (exact_columnToLetter n) = n"
proof (induction "nat n" arbitrary: n rule: less_induct)
  case less
  show ?case
  proof (cases "0 < n")
    case False
    with less.prems have "n = 0" by simp
    then show ?thesis by (simp add: exact_columnToLetter_def exact_columnToLetter_loop.simps exact_columnLetterToIndex_def)
  next
    case True
    let ?m = "(n - 1) div 26"
    let ?t = "(n - 1) mod 26"
    have m: "0 \<le> ?m" "nat ?m < nat n" using True by auto
    have t: "0 \<le> ?t" "?t < 26" by simp_all
    have "(of_char (char_of (?t + 65) :: char) :: int) = (?t + 65) mod 256" by simp
    also have "\<dots> = ?t + 65" using t by simp
    finally have c: "(of_char (char_of (?t + 65) :: char) :: int) = ?t + 65" .
    have "exact_columnLetterToIndex (exact_columnToLetter n) = 26 * ?m + (?t + 65 - 64)"
      using letter_snoc [OF True] index_snoc less.hyps [OF m(2) m(1)] c by simp
    also have "\<dots> = n" using mult_div_mod_eq [of 26 "n - 1"] by linarith
    finally show ?thesis .
  qed
qed

lemma letter_valid: "0 < n \<Longrightarrow> all_upper (exact_columnToLetter n)"
proof (induction "nat n" arbitrary: n rule: less_induct)
  case less
  let ?m = "(n - 1) div 26"
  let ?t = "(n - 1) mod 26"
  have t: "0 \<le> ?t" "?t < 26" by simp_all
  have "(of_char (char_of (?t + 65) :: char) :: int) = (?t + 65) mod 256" by simp
  also have "\<dots> = ?t + 65" using t by simp
  finally have c: "is_upper (char_of (?t + 65))" using t by (simp add: is_upper_int)
  show ?case
  proof (cases "0 < ?m")
    case True
    have "nat ?m < nat n" using less.prems by auto
    then have "all_upper (exact_columnToLetter ?m)" using less.hyps True by blast
    then show ?thesis using letter_snoc [OF less.prems] c by (simp add: all_upper_def)
  next
    case False
    then have "exact_columnToLetter ?m = []" by (simp add: exact_columnToLetter_def exact_columnToLetter_loop.simps)
    then show ?thesis using letter_snoc [OF less.prems] c by (simp add: all_upper_def)
  qed
qed

lemma index_loop_exact:
  "list_all is_upper s \<Longrightarrow> 0 \<le> a \<Longrightarrow> exact_columnLetterToIndex_loop s a \<le> 9007199254740992 \<Longrightarrow>
   columnLetterToIndex_loop s (Finite a 0) = Finite (exact_columnLetterToIndex_loop s a) 0"
proof (induction s arbitrary: a)
  case Nil
  show ?case by simp
next
  case (Cons c cs)
  let ?d = "of_char c - 64 :: int"
  let ?p = "26 ^ length cs :: int"
  have d: "1 \<le> ?d" using Cons.prems(1) by (simp add: is_upper_int)
  have cs: "list_all is_upper cs" using Cons.prems(1) by simp
  have p: "1 \<le> ?p" by simp
  have rest: "0 \<le> exact_columnLetterToIndex_loop cs 0"
    using index_nonneg [OF cs] by (simp add: exact_columnLetterToIndex_def)
  have total: "a + ?d * ?p + exact_columnLetterToIndex_loop cs 0 \<le> 9007199254740992"
    using Cons.prems(3) index_loop_acc [of cs "a + ?d * ?p"] by simp
  have dp: "?p \<le> ?d * ?p" using d p by (simp add: mult_le_cancel_right1)
  have dp0: "0 \<le> ?d * ?p" using dp p by linarith
  have b1: "?p \<le> 9007199254740992" using total rest dp Cons.prems(2) by linarith
  have b2: "\<bar>?d * ?p\<bar> \<le> 9007199254740992" using total rest dp0 Cons.prems(2) by linarith
  have b3: "\<bar>a + ?d * ?p\<bar> \<le> 9007199254740992" using total rest dp0 Cons.prems(2) by linarith
  have pw: "Math_pow 26 (length cs) = Finite ?p 0" using b1 by (simp add: Math_pow_exact)
  have ml: "double_mul (Finite ?d 0) (Finite ?p 0) = Finite (?d * ?p) 0"
    using b2 by (rule double_mul_exact)
  have ad: "double_add (Finite a 0) (Finite (?d * ?p) 0) = Finite (a + ?d * ?p) 0"
    using b3 by (rule double_add_exact)
  have nn: "0 \<le> a + ?d * ?p" using dp0 Cons.prems(2) by linarith
  have "columnLetterToIndex_loop (c # cs) (Finite a 0)
        = columnLetterToIndex_loop cs (Finite (a + ?d * ?p) 0)"
    by (simp only: columnLetterToIndex_loop.simps pw ml ad)
  also have "\<dots> = Finite (exact_columnLetterToIndex_loop cs (a + ?d * ?p)) 0"
    using Cons.IH [OF cs nn] Cons.prems(3) by simp
  finally show ?case by simp
qed

lemma columnLetterToIndex_exact:
  "list_all is_upper s \<Longrightarrow> exact_columnLetterToIndex s \<le> 9007199254740992 \<Longrightarrow>
   columnLetterToIndex s = Finite (exact_columnLetterToIndex s) 0"
  using index_loop_exact [of s 0] by (simp add: columnLetterToIndex_def exact_columnLetterToIndex_def)

lemma index_bound: "list_all is_upper s \<Longrightarrow> 25 * exact_columnLetterToIndex s + 26 \<le> 26 ^ (length s + 1)"
proof (induction s rule: rev_induct)
  case Nil
  show ?case by (simp add: exact_columnLetterToIndex_def)
next
  case (snoc c s)
  then have ih: "25 * exact_columnLetterToIndex s + 26 \<le> 26 ^ (length s + 1)"
    and c: "(of_char c :: int) \<le> 90"
    by (simp_all add: is_upper_int)
  have "25 * exact_columnLetterToIndex (s @ [c]) + 26
        \<le> 26 * (25 * exact_columnLetterToIndex s + 26)"
    using c by (simp add: index_snoc)
  also have "\<dots> \<le> 26 * 26 ^ (length s + 1)" using ih by simp
  finally show ?case by simp
qed

lemma index_eleven:
  assumes "list_all is_upper s" and "length s \<le> 11"
  shows "exact_columnLetterToIndex s \<le> 9007199254740992"
proof -
  have "(26 :: int) ^ (length s + 1) \<le> 26 ^ 12"
    using assms(2) by (intro power_increasing) simp_all
  then have "25 * exact_columnLetterToIndex s + 26 \<le> 26 ^ 12"
    using index_bound [OF assms(1)] by linarith
  then show ?thesis by simp
qed

lemma cell_letter_returns:
  "int j < 9007199254740992 \<Longrightarrow>
   columnToLetter (double_add (Finite (int j) 0) (Finite 1 0)) = Some (exact_columnToLetter (int j + 1))"
proof -
  assume j: "int j < 9007199254740992"
  then have "double_add (Finite (int j) 0) (Finite 1 0) = Finite (int j + 1) 0"
    by (intro double_add_exact) linarith
  then show ?thesis using j columnToLetter_exact [of "int j + 1"] by simp
qed

text \<open>
  Claim C8, as amended.  Every non-empty sequence \<open>s\<close> of at most eleven of the letters A
  to Z satisfies \<open>columnToLetter (columnLetterToIndex s) = s\<close>; every index from 1 to
  \<open>2 ^ 53\<close> is turned into a non-empty sequence of these letters that is read back as the
  index; and the indices 1, 26, 27, 52 and 703 are written A, Z, AA, AZ and AAA.
\<close>

theorem column_letters_inverse:
  "(\<forall>s. all_upper s \<and> length s \<le> 11 \<longrightarrow> columnToLetter (columnLetterToIndex s) = Some s) \<and>
   (\<forall>n. 0 < n \<and> n \<le> 9007199254740992 \<longrightarrow>
      (\<exists>t. columnToLetter (Finite n 0) = Some t \<and> all_upper t \<and>
           columnLetterToIndex t = Finite n 0)) \<and>
   columnToLetter (Finite 1 0) = Some ''A'' \<and> columnToLetter (Finite 26 0) = Some ''Z'' \<and>
   columnToLetter (Finite 27 0) = Some ''AA'' \<and> columnToLetter (Finite 52 0) = Some ''AZ'' \<and>
   columnToLetter (Finite 703 0) = Some ''AAA''"
proof -
  have a: "columnToLetter (columnLetterToIndex s) = Some s" if "all_upper s \<and> length s \<le> 11" for s
  proof -
    from that have u: "list_all is_upper s" and l: "length s \<le> 11" by (simp_all add: all_upper_def)
    have b: "exact_columnLetterToIndex s \<le> 9007199254740992" by (rule index_eleven [OF u l])
    have "columnToLetter (columnLetterToIndex s) = Some (exact_columnToLetter (exact_columnLetterToIndex s))"
      using columnLetterToIndex_exact [OF u b] columnToLetter_exact [OF index_nonneg [OF u] b] by simp
    also have "\<dots> = Some s"
      using letter_of_index [OF u, of "[]"] by (simp add: exact_columnToLetter_def)
    finally show ?thesis .
  qed
  have b: "\<exists>t. columnToLetter (Finite n 0) = Some t \<and> all_upper t \<and> columnLetterToIndex t = Finite n 0"
    if "0 < n \<and> n \<le> 9007199254740992" for n
  proof -
    let ?t = "exact_columnToLetter n"
    from that have p: "0 < n" and le: "n \<le> 9007199254740992" by simp_all
    have t1: "columnToLetter (Finite n 0) = Some ?t" using p le by (simp add: columnToLetter_exact)
    have t2: "all_upper ?t" by (rule letter_valid [OF p])
    have e: "exact_columnLetterToIndex ?t = n" using p by (simp add: index_of_letter)
    have t3: "columnLetterToIndex ?t = Finite n 0"
      using columnLetterToIndex_exact [of ?t] t2 e le by (simp add: all_upper_def)
    show ?thesis using t1 t2 t3 by blast
  qed
  have c: "columnToLetter (Finite 1 0) = Some ''A''" "columnToLetter (Finite 26 0) = Some ''Z''"
    "columnToLetter (Finite 27 0) = Some ''AA''" "columnToLetter (Finite 52 0) = Some ''AZ''"
    "columnToLetter (Finite 703 0) = Some ''AAA''"
    by code_simp+
  show ?thesis using a b c by blast
qed

theorem column_letters_inverse_witness:
  "all_upper ''AZ'' \<and> length ''AZ'' \<le> 11 \<and> columnToLetter (columnLetterToIndex ''AZ'') = Some ''AZ'' \<and>
   (0::int) < 52 \<and> (52::int) \<le> 9007199254740992 \<and>
   columnToLetter (Finite 52 0) = Some ''AZ'' \<and> columnLetterToIndex ''AZ'' = Finite 52 0"
proof -
  have v: "all_upper ''AZ'' \<and> length ''AZ'' \<le> 11" by code_simp
  have p: "(0::int) < 52 \<and> (52::int) \<le> 9007199254740992" by simp
  note t1 = column_letters_inverse [THEN conjunct1, rule_format, OF v]
  note t2 = column_letters_inverse [THEN conjunct2, THEN conjunct1, rule_format, OF p]
  have l: "columnToLetter (Finite 52 0) = Some ''AZ''" by code_simp
  from t2 l have i: "columnLetterToIndex ''AZ'' = Finite 52 0" by auto
  show ?thesis using v p t1 l i by simp
qed

text \<open>
  Claim C8 as stated fails from twelve letters on, where the index is not a double: that
  of twelve letters Z is rounded up by ten, and its letters are thirteen.
\<close>

theorem column_letters_twelve_counterexample:
  "all_upper ''ZZZZZZZZZZZZ'' \<and>
   exact_columnLetterToIndex ''ZZZZZZZZZZZZ'' = 99246114928149462 \<and>
   columnLetterToIndex ''ZZZZZZZZZZZZ'' = Finite 99246114928149472 0 \<and>
   columnToLetter (columnLetterToIndex ''ZZZZZZZZZZZZ'') = Some ''AAAAAAAAAAAAK''"
  by code_simp

section \<open>Properties of the grid adapter\<close>

lemma load_cached: "data s = Some sheets \<Longrightarrow> load api s = (Some sheets, s)"
  by (simp add: load_def)

lemma getSheet_loaded:
  "load api s = (Some sheets, s') \<Longrightarrow> getSheet api sel s = (Inr (find (sheet_matches sel) sheets), s')"
  by (simp add: getSheet_def)

lemma selectSheet_loaded:
  "load api s = (Some sheets, s') \<Longrightarrow>
   selectSheet api sel s =
     (case find (sheet_matches sel) sheets of
        None \<Rightarrow> (Inl (Error ''sheet not found''), s')
      | Some sh \<Rightarrow> (Inr sh, s'))"
  by (simp add: selectSheet_def and_then_def getSheet_loaded throw_def return_def split: option.splits)

text \<open>
  Claim C9, as amended.  On a loaded spreadsheet, \<open>getSheet\<close> with a selector that matches
  no sheet returns an absent result and does not fail; it is each operation calling it
  (\<open>deleteSheet\<close>, \<open>list\<close>, \<open>append\<close>, \<open>update\<close>, \<open>delete\<close>) that then fails with
  \<open>sheet not found\<close>.
\<close>

theorem getSheet_absent:
  assumes "load api s = (Some sheets, s')"
    and "find (sheet_matches sel) sheets = None"
  shows "getSheet api sel s = (Inr None, s') \<and>
         deleteSheet api sel s = (Inl (Error ''sheet not found''), s') \<and>
         Spreadsheet_list api (opts\<lparr>sheet := Some sel\<rparr>) s = (Inl (Error ''sheet not found''), s') \<and>
         Spreadsheet_append api d sel s = (Inl (Error ''sheet not found''), s') \<and>
         Spreadsheet_update api (Some u) sel upsert s = (Inl (Error ''sheet not found''), s') \<and>
         Spreadsheet_delete api rows columns sel s = (Inl (Error ''sheet not found''), s')"
proof -
  have sel: "selectSheet api sel s = (Inl (Error ''sheet not found''), s')"
    using assms by (simp add: selectSheet_loaded)
  have a: "getSheet api sel s = (Inr None, s')"
    using assms by (simp add: getSheet_loaded)
  have b: "deleteSheet api sel s = (Inl (Error ''sheet not found''), s')"
    unfolding deleteSheet_def by (simp add: and_then_def sel)
  have c: "Spreadsheet_append api d sel s = (Inl (Error ''sheet not found''), s')"
    unfolding Spreadsheet_append_def by (simp add: and_then_def sel)
  have d: "Spreadsheet_update api (Some u) sel upsert s = (Inl (Error ''sheet not found''), s')"
    unfolding Spreadsheet_update_def by (simp add: and_then_def sel)
  have e: "Spreadsheet_delete api rows columns sel s = (Inl (Error ''sheet not found''), s')"
    unfolding Spreadsheet_delete_def by (simp add: and_then_def sel)
  have f: "Spreadsheet_list api (opts\<lparr>sheet := Some sel\<rparr>) s = (Inl (Error ''sheet not found''), s')"
    unfolding Spreadsheet_list_def by (simp add: Let_def and_then_def sel)
  show ?thesis using a b c d e f by simp
qed

theorem getSheet_absent_witness:
  "load accepting sample_cache = (Some [sample_sheet], sample_cache) \<and>
   find (sheet_matches (Str ''nope'')) [sample_sheet] = None \<and>
   getSheet accepting (Str ''nope'') sample_cache = (Inr None, sample_cache) \<and>
   Spreadsheet_delete accepting None None (Str ''nope'') sample_cache =
     (Inl (Error ''sheet not found''), sample_cache)"
proof -
  have h1: "load accepting sample_cache = (Some [sample_sheet], sample_cache)"
    by (simp add: load_def sample_cache_def)
  have h2: "find (sheet_matches (Str ''nope'')) [sample_sheet] = None"
    by code_simp
  show ?thesis using h1 h2 getSheet_absent [OF h1 h2] by simp
qed

text \<open>
  Claim C9 as stated fails: the selector \<open>nope\<close> matches no sheet of the loaded sample,
  and \<open>getSheet\<close> returns the absent result to its caller.
\<close>

theorem getSheet_absent_counterexample:
  "find (sheet_matches (Str ''nope'')) [sample_sheet] = None \<and>
   getSheet accepting (Str ''nope'') sample_cache = (Inr None, sample_cache)"
  by code_simp

text \<open>\<open>expand\<close> leaves \<open>this.data\<close> as it is, whatever the service answers.\<close>

lemma expand_data: "data (snd (expand api rows columns sid s)) = data s"
  by (simp add: expand_def Let_def and_then_def request_def call_def return_def split: option.splits)

text \<open>
  Claim C4 at a failing input: \<open>expand\<close> of one row on the loaded sample sends its
  request, succeeds, and the cache still holds the sheet with its old dimensions.
\<close>

theorem expand_keeps_cache:
  "expand accepting 1 0 0 sample_cache =
     (Inr (Some OtherResponse),
      \<lparr>data = Some [sample_sheet], calls = [BatchUpdate [AppendDimension 0 ROWS 1]]\<rparr>)"
  by code_simp

text \<open>
  Claim C3 at a failing input: the sample sheet has two columns and the row written has
  three cells, yet \<open>update\<close> with \<open>upsert\<close> sends no request that adds a column before
  the write.
\<close>

theorem update_wide_row_not_expanded:
  "columnCount sample_sheet = 2 \<and>
   Spreadsheet_update accepting
     (Some (UpdateArray [(Num 1, RowArray [Some (Str ''a''), Some (Str ''b''), Some (Str ''c'')])]))
     Undefined None sample_cache =
   (Inr 1,
    \<lparr>data = None,
     calls = [ValuesBatchUpdate
               [(row_range ''S'' (Num 1) (Num 1),
                 [[Some (Str ''a''), Some (Str ''b''), Some (Str ''c'')]])]]\<rparr>)"
  by code_simp

text \<open>The row overrun is handled: a write to row 5 of three first adds two rows.\<close>

lemma update_tall_row_expanded:
  "Spreadsheet_update accepting (Some (UpdateArray [(Num 5, RowArray [Some (Str ''a'')])]))
     Undefined None sample_cache =
   (Inr 1,
    \<lparr>data = None,
     calls = [BatchUpdate [AppendDimension 0 ROWS 2],
              ValuesBatchUpdate [(row_range ''S'' (Num 5) (Num 5), [[Some (Str ''a'')]])]]\<rparr>)"
  by code_simp

text \<open>
  The other mutating methods end with \<open>this.data = null\<close>: after each of them has
  succeeded the cache is absent.
\<close>

lemma append_invalidates:
  "Spreadsheet_append api d sel s = (Inr r, s') \<Longrightarrow> data s' = None"
  by (auto simp: Spreadsheet_append_def and_then_def throw_def invalidate_def Let_def
      split: sum.splits prod.splits response.splits option.splits if_splits)

lemma update_invalidates:
  "Spreadsheet_update api (Some u) sel upsert s = (Inr r, s') \<Longrightarrow> data s' = None"
  by (auto simp: Spreadsheet_update_def and_then_def throw_def invalidate_def return_def Let_def
      split: sum.splits prod.splits if_splits)

lemma delete_invalidates:
  "Spreadsheet_delete api rows columns sel s = (Inr r, s') \<Longrightarrow> data s' = None"
  by (auto simp: Spreadsheet_delete_def and_then_def throw_def invalidate_def Let_def
      split: sum.splits prod.splits if_splits)

lemma addSheet_invalidates:
  "addSheet api t s = (Inr r, s') \<Longrightarrow> data s' = None"
  by (auto simp: addSheet_def and_then_def throw_def invalidate_def
      split: sum.splits prod.splits response.splits list.splits reply.splits)

lemma deleteSheet_invalidates:
  "deleteSheet api sel s = (Inr r, s') \<Longrightarrow> data s' = None"
  by (auto simp: deleteSheet_def and_then_def invalidate_def split: sum.splits prod.splits)

text \<open>
  A row of two or more cells, joined with commas, is not a number: the column test of
  \<open>update\<close> then never raises \<open>addColumns\<close>.
\<close>

lemma in_dropWhile: "c \<in> set s \<Longrightarrow> \<not> P c \<Longrightarrow> c \<in> set (dropWhile P s)"
  by (induction s) auto

lemma comma_in_trim: "CHR '','' \<in> set s \<Longrightarrow> CHR '','' \<in> set (trim s)"
proof -
  assume a: "CHR '','' \<in> set s"
  have ns: "\<not> is_space CHR '',''" by (simp add: is_space_def)
  have "CHR '','' \<in> set (dropWhile is_space s)" using a ns by (rule in_dropWhile)
  then have "CHR '','' \<in> set (rev (dropWhile is_space s))" by simp
  then have "CHR '','' \<in> set (dropWhile is_space (rev (dropWhile is_space s)))"
    using ns by (rule in_dropWhile)
  then show ?thesis by (simp add: trim_def)
qed

lemma comma_not_digits: "CHR '','' \<in> set s \<Longrightarrow> unsigned_decimal s = None"
proof -
  assume a: "CHR '','' \<in> set s"
  have "\<not> is_digit CHR '',''" by (simp add: is_digit_def)
  with a have "\<not> list_all is_digit s" by (auto simp: list_all_iff)
  then show ?thesis by (simp add: unsigned_decimal_def all_digits_def)
qed

lemma comma_not_hex: "CHR '','' \<in> set s \<Longrightarrow> \<not> list_all (is_radix_digit 16) s"
proof -
  assume a: "CHR '','' \<in> set s"
  have "\<not> is_radix_digit 16 CHR '',''" by (simp add: is_radix_digit_def digit_value_def Let_def)
  with a show ?thesis by (auto simp: list_all_iff)
qed

lemma stringToNumber_comma: "CHR '','' \<in> set s \<Longrightarrow> stringToNumber s = None"
proof -
  assume "CHR '','' \<in> set s"
  then have t: "CHR '','' \<in> set (trim s)" by (rule comma_in_trim)
  then obtain c cs where tr: "trim s = c # cs" by (cases "trim s") auto
  show ?thesis
  proof (cases "c = CHR ''-'' \<or> c = CHR ''+''")
    case True
    with t tr have "CHR '','' \<in> set cs" by auto
    then have "unsigned_decimal cs = None" by (rule comma_not_digits)
    with True tr show ?thesis by (auto simp: stringToNumber_def)
  next
    case False
    show ?thesis
    proof (cases "c = CHR ''0'' \<and> cs \<noteq> [] \<and> (hd cs = CHR ''x'' \<or> hd cs = CHR ''X'')")
      case True
      then obtain x r where cs: "cs = x # r" and x: "x = CHR ''x'' \<or> x = CHR ''X''"
        by (cases cs) auto
      with t tr True have "CHR '','' \<in> set r" by auto
      then have "\<not> list_all (is_radix_digit 16) r" by (rule comma_not_hex)
      with True False tr cs show ?thesis by (simp add: stringToNumber_def)
    next
      case h: False
      have "unsigned_decimal (c # cs) = None" using t tr comma_not_digits by simp
      with False h tr show ?thesis by (auto simp: stringToNumber_def)
    qed
  qed
qed

lemma join_comma: "2 \<le> length cells \<Longrightarrow> CHR '','' \<in> set (join '','' cells)"
proof -
  assume "2 \<le> length cells"
  then obtain v w vs where "cells = v # w # vs"
    by (cases cells; cases "tl cells") auto
  then show ?thesis by simp
qed

lemma update_no_columns:
  "2 \<le> length cells \<Longrightarrow> update_addColumns selectedSheet addColumns cells = addColumns"
  using stringToNumber_comma [OF join_comma]
  by (simp add: update_addColumns_def array_toNumber_def num_lt_def)

section \<open>Properties of the projection of rows to documents\<close>














section \<open>Properties of append\<close>


lemma call_calls: "calls (snd (call api req s)) = calls s @ [req]"
  by (simp add: call_def split: option.splits)








section \<open>Properties of the update operators\<close>

lemma digit_char:
  assumes "d < 10"
  shows "is_digit (char_of (48 + d))" and "digit_value 10 (char_of (48 + d)) = Some d"
proof -
  have "(of_char (char_of (48 + d) :: char) :: nat) = (48 + d) mod 256" by simp
  also have "\<dots> = 48 + d" using assms by simp
  finally have k: "(of_char (char_of (48 + d) :: char) :: nat) = 48 + d" .
  show "is_digit (char_of (48 + d))" using k assms by (simp add: is_digit_def)
  show "digit_value 10 (char_of (48 + d)) = Some d" using k assms by (simp add: digit_value_def Let_def)
qed

lemma radix10_digit: "is_radix_digit 10 c = is_digit c"
  by (auto simp: is_radix_digit_def digit_value_def is_digit_def Let_def)

lemma digits_value_snoc:
  "digits_value radix (ds @ [c]) = digits_value radix ds * radix + the (digit_value radix c)"
  by (simp add: digits_value_def)

lemma nat_digits_all: "list_all is_digit (nat_digits n) \<and> nat_digits n \<noteq> []"
proof (induction n rule: nat_digits.induct)
  case (1 n)
  show ?case
  proof (cases "n < 10")
    case True
    then show ?thesis using digit_char(1) [of n] by (subst (1 2) nat_digits.simps) simp
  next
    case False
    then show ?thesis
      using "1.IH" digit_char(1) [of "n mod 10"] by (subst (1 2) nat_digits.simps) simp
  qed
qed

lemma nat_digits_value: "digits_value 10 (nat_digits n) = n"
proof (induction n rule: nat_digits.induct)
  case (1 n)
  show ?case
  proof (cases "n < 10")
    case True
    then show ?thesis
      using digit_char(2) [of n] by (subst nat_digits.simps) (simp add: digits_value_def)
  next
    case False
    then show ?thesis
      using "1.IH" digit_char(2) [of "n mod 10"]
      by (subst nat_digits.simps) (simp add: digits_value_snoc)
  qed
qed

lemma digit_not_special:
  "is_digit c \<Longrightarrow> \<not> is_space c \<and> c \<noteq> CHR ''-'' \<and> c \<noteq> CHR ''+'' \<and> c \<noteq> CHR ''x'' \<and> c \<noteq> CHR ''X''"
  by (auto simp: is_digit_def is_space_def)

lemma parseInt_unsigned_digits:
  assumes "all_digits s"
  shows "parseInt_unsigned s = Some (int (digits_value 10 s))"
proof -
  have tw: "takeWhile (is_radix_digit 10) s = s"
    using assms by (simp add: all_digits_def radix10_digit list_all_iff)
  have ne: "s \<noteq> []" using assms by (simp add: all_digits_def)
  have pre: "(case s of
           c0 # c1 # rest \<Rightarrow>
             if c0 = CHR ''0'' \<and> (c1 = CHR ''x'' \<or> c1 = CHR ''X'') then (16, rest) else (10, s)
         | _ \<Rightarrow> (10::nat, s)) = (10, s)"
  proof (cases s)
    case Nil
    then show ?thesis by simp
  next
    case (Cons c0 t)
    show ?thesis
    proof (cases t)
      case Nil
      with Cons show ?thesis by simp
    next
      case (Cons c1 rest)
      with \<open>s = c0 # t\<close> assms have "is_digit c1" by (simp add: all_digits_def)
      then have "c1 \<noteq> CHR ''x'' \<and> c1 \<noteq> CHR ''X''" using digit_not_special by blast
      with Cons \<open>s = c0 # t\<close> show ?thesis by simp
    qed
  qed
  show ?thesis unfolding parseInt_unsigned_def pre using ne by (simp add: Let_def tw)
qed

lemma parseInt_string_digits:
  assumes "all_digits s"
  shows "parseInt_string s = Some (int (digits_value 10 s))"
proof -
  obtain c cs where s: "s = c # cs" using assms by (cases s) (simp_all add: all_digits_def)
  then have d: "is_digit c" using assms by (simp add: all_digits_def)
  have n: "\<not> is_space c" "c \<noteq> CHR ''-''" "c \<noteq> CHR ''+''" using digit_not_special [OF d] by simp_all
  show ?thesis
    using n parseInt_unsigned_digits [OF assms] by (simp add: parseInt_string_def s)
qed

lemma all_digits_nat_digits: "all_digits (nat_digits n)"
  using nat_digits_all by (simp add: all_digits_def)

lemma parseInt_string_int: "parseInt_string (int_to_string n) = Some n"
proof (cases "n < 0")
  case False
  then show ?thesis
    using parseInt_string_digits [OF all_digits_nat_digits, of "nat n"]
    by (simp add: int_to_string_def nat_digits_value)
next
  case True
  have sp: "\<not> is_space CHR ''-''" by (simp add: is_space_def)
  show ?thesis
    using True sp parseInt_unsigned_digits [OF all_digits_nat_digits, of "nat (- n)"]
    by (simp add: int_to_string_def parseInt_string_def nat_digits_value)
qed

lemma inc_digits:
  "all_digits s \<Longrightarrow>
   apply_operator js (Str s) (''$inc'', OPrim (Num n)) =
     Inr (Some (Str (int_to_string (n + int (digits_value 10 s)))))"
  by (simp add: apply_operator_def operand_String_def parseInt_string_int parseInt_def
      parseInt_string_digits num_add_def of_number_def)

lemma inc_other:
  "\<not> all_digits s \<Longrightarrow>
   apply_operator js (Str s) (''$inc'', OPrim (Num n)) = Inr (Some (Str (int_to_string n)))"
  by (simp add: apply_operator_def operand_String_def parseInt_string_int is_number_def
      num_add_def of_number_def)

lemma inc_number:
  "apply_operator js (Num m) (''$inc'', OPrim (Num n)) = Inr (Some (Str (int_to_string (n + m))))"
  by (simp add: apply_operator_def operand_String_def parseInt_string_int parseInt_def is_number_def
      num_add_def of_number_def)

text \<open>
  Claim C7, as amended.  For an integer operand \<open>n\<close> of magnitude below \<open>2 ^ 53\<close>,
  \<open>$inc\<close> stores as a string the sum of \<open>n\<close> and the existing value read as an integer
  when that value is a number or a non-empty string of decimal digits, provided the value
  and the sum are below \<open>2 ^ 53\<close> in magnitude too, and the string of \<open>n\<close> alone for
  every other existing string, among them the empty string and a numeral with a sign.  The
  existing value \<open>5\<close> with \<open>$inc: 3\<close> gives \<open>8\<close>, the empty one gives \<open>3\<close>.
\<close>

theorem inc_operator:
  "(all_digits s \<and> \<bar>n\<bar> < 9007199254740992 \<and> int (digits_value 10 s) < 9007199254740992 \<and>
    \<bar>n + int (digits_value 10 s)\<bar> < 9007199254740992 \<longrightarrow>
      apply_operator js (Str s) (''$inc'', OPrim (Num n)) =
        Inr (Some (Str (int_to_string (n + int (digits_value 10 s)))))) \<and>
   (\<not> all_digits s \<and> \<bar>n\<bar> < 9007199254740992 \<longrightarrow>
      apply_operator js (Str s) (''$inc'', OPrim (Num n)) = Inr (Some (Str (int_to_string n)))) \<and>
   (\<bar>n\<bar> < 9007199254740992 \<and> \<bar>m\<bar> < 9007199254740992 \<and> \<bar>n + m\<bar> < 9007199254740992 \<longrightarrow>
      apply_operator js (Num m) (''$inc'', OPrim (Num n)) =
        Inr (Some (Str (int_to_string (n + m))))) \<and>
   apply_operator js (Str ''5'') (''$inc'', OPrim (Num 3)) = Inr (Some (Str ''8'')) \<and>
   apply_operator js (Str []) (''$inc'', OPrim (Num 3)) = Inr (Some (Str ''3''))"
proof -
  have a: "all_digits ''5''" "digits_value 10 ''5'' = 5" "int_to_string 8 = ''8''" by code_simp+
  have b: "\<not> all_digits []" "int_to_string 3 = ''3''" by code_simp+
  have c: "apply_operator js (Str ''5'') (''$inc'', OPrim (Num 3)) = Inr (Some (Str ''8''))"
    using inc_digits [OF a(1), of js 3] a(2,3) by simp
  have d: "apply_operator js (Str []) (''$inc'', OPrim (Num 3)) = Inr (Some (Str ''3''))"
    using inc_other [OF b(1), of js 3] b(2) by simp
  show ?thesis using inc_digits inc_other inc_number c d by blast
qed

theorem inc_operator_witness:
  "all_digits ''41'' \<and> \<bar>1 :: int\<bar> < 9007199254740992 \<and>
   int (digits_value 10 ''41'') < 9007199254740992 \<and>
   \<bar>1 + int (digits_value 10 ''41'')\<bar> < 9007199254740992 \<and>
   apply_operator plain_engine (Str ''41'') (''$inc'', OPrim (Num 1)) = Inr (Some (Str ''42'')) \<and>
   \<not> all_digits ''-5'' \<and> \<bar>3 :: int\<bar> < 9007199254740992 \<and>
   apply_operator plain_engine (Str ''-5'') (''$inc'', OPrim (Num 3)) = Inr (Some (Str ''3'')) \<and>
   \<bar>3 :: int\<bar> < 9007199254740992 \<and> \<bar>5 :: int\<bar> < 9007199254740992 \<and>
   \<bar>3 + 5 :: int\<bar> < 9007199254740992 \<and>
   apply_operator plain_engine (Num 5) (''$inc'', OPrim (Num 3)) = Inr (Some (Str ''8''))"
proof -
  have a: "all_digits ''41''" "digits_value 10 ''41'' = 41" "int_to_string 42 = ''42''" by code_simp+
  have b: "\<not> all_digits ''-5''" "int_to_string 3 = ''3''" "int_to_string 8 = ''8''" by code_simp+
  have h1: "all_digits ''41'' \<and> \<bar>1 :: int\<bar> < 9007199254740992 \<and>
     int (digits_value 10 ''41'') < 9007199254740992 \<and>
     \<bar>1 + int (digits_value 10 ''41'')\<bar> < 9007199254740992"
    using a by simp
  have h2: "\<not> all_digits ''-5'' \<and> \<bar>3 :: int\<bar> < 9007199254740992" using b by simp
  have h3: "\<bar>3 :: int\<bar> < 9007199254740992 \<and> \<bar>5 :: int\<bar> < 9007199254740992 \<and>
     \<bar>3 + 5 :: int\<bar> < 9007199254740992"
    by simp
  note t1 = inc_operator [of "''41''" 1 plain_engine, THEN conjunct1, rule_format, OF h1]
  note t2 = inc_operator [of "''-5''" 3 plain_engine, THEN conjunct2, THEN conjunct1, rule_format, OF h2]
  note t3 = inc_operator [of _ 3 plain_engine 5, THEN conjunct2, THEN conjunct2, THEN conjunct1,
      rule_format, OF h3]
  show ?thesis using a b h1 h2 h3 t1 t2 t3 by simp
qed

text \<open>
  Claim C7 as stated fails on a negative existing value: \<open>-5\<close> parses as the integer
  \<open>-5\<close>, and \<open>$inc: 3\<close> stores \<open>3\<close>, not \<open>-2\<close>.
\<close>

theorem inc_negative_counterexample:
  "parseInt (Str ''-5'') = Some (- 5) \<and>
   apply_operator plain_engine (Str ''-5'') (''$inc'', OPrim (Num 3)) = Inr (Some (Str ''3''))"
  by code_simp

section \<open>Properties of the query compiler\<close>

lemma op_terms_unknown: "fst opv \<notin> set known_operators \<Longrightarrow> op_terms key opv = []"
  by (simp add: op_terms_def known_operators_def)

lemma key_terms_unknown:
  assumes "\<forall>op \<in> fst ` set ops. op \<notin> set known_operators"
  shows "key_terms js (k, QObject ops) = Inr []"
proof -
  have "\<forall>opv \<in> set ops. op_terms k opv = []"
    using assms op_terms_unknown by blast
  then have "concat (map (op_terms k) ops) = []" by simp
  then show ?thesis by (simp add: key_terms_def)
qed

lemma buildFilter_Cons:
  "buildFilter js (Some (kt # q)) =
     (case key_terms js kt of
        Inl e \<Rightarrow> Inl e
      | Inr ts \<Rightarrow> (case buildFilter js (Some q) of Inl e \<Rightarrow> Inl e | Inr us \<Rightarrow> Inr (ts @ us)))"
  by (simp add: buildFilter_def split: sum.splits)

lemma buildFilter_without:
  "\<forall>kt \<in> set q. fst kt = k \<longrightarrow> key_terms js kt = Inr [] \<Longrightarrow>
   buildFilter js (Some q) = buildFilter js (Some (filter (\<lambda>kt. fst kt \<noteq> k) q))"
proof (induction q)
  case Nil
  show ?case by simp
next
  case (Cons kt q)
  then have ih: "buildFilter js (Some q) = buildFilter js (Some (filter (\<lambda>kt. fst kt \<noteq> k) q))"
    by simp
  show ?case
  proof (cases "fst kt = k")
    case True
    with Cons.prems have "key_terms js kt = Inr []" by simp
    then show ?thesis using True by (simp add: buildFilter_Cons ih split: sum.splits)
  next
    case False
    then show ?thesis by (simp add: buildFilter_Cons ih split: sum.splits)
  qed
qed

lemma op_terms_keys: "fst ` set (op_terms key opv) \<subseteq> {key}"
  by (auto simp: op_terms_def)

lemma key_terms_keys: "key_terms js kt = Inr ts \<Longrightarrow> fst ` set ts \<subseteq> {fst kt}"
proof (cases "snd kt")
  case (QPrim v)
  assume "key_terms js kt = Inr ts"
  with QPrim show ?thesis
    by (cases v) (auto simp: key_terms_def split: if_splits option.splits)
next
  case (QFunction f)
  assume "key_terms js kt = Inr ts"
  with QFunction show ?thesis by (auto simp: key_terms_def)
next
  case (QRegExp t)
  assume "key_terms js kt = Inr ts"
  with QRegExp show ?thesis by (auto simp: key_terms_def)
next
  case (QObject ops)
  assume "key_terms js kt = Inr ts"
  with QObject have "ts = concat (map (op_terms (fst kt)) ops)" by (simp add: key_terms_def)
  then show ?thesis using op_terms_keys by fastforce
qed

lemma buildFilter_keys: "buildFilter js (Some q) = Inr ts \<Longrightarrow> fst ` set ts \<subseteq> fst ` set q"
proof (induction q arbitrary: ts)
  case Nil
  then show ?case by (simp add: buildFilter_def)
next
  case (Cons kt q)
  from Cons.prems obtain t1 t2 where a: "key_terms js kt = Inr t1" and b: "buildFilter js (Some q) = Inr t2"
    and c: "ts = t1 @ t2"
    by (auto simp: buildFilter_Cons split: sum.splits)
  from key_terms_keys [OF a] Cons.IH [OF b] c show ?case by auto
qed

lemma filterData_cong:
  "buildFilter js (Some q) = buildFilter js (Some q') \<Longrightarrow>
   filterData js d (Some q) opts = filterData js d (Some q') opts"
  by (simp add: filterData_def buildFilterFn_def)

lemma Sheet_find_cong:
  "buildFilter js (Some q) = buildFilter js (Some q') \<Longrightarrow>
   Sheet_find js api sh (Some q) opts = Sheet_find js api sh (Some q') opts"
proof -
  assume "buildFilter js (Some q) = buildFilter js (Some q')"
  then have "\<And>d. filterData js d (Some q) opts = filterData js d (Some q') opts"
    by (rule filterData_cong)
  then show ?thesis by (simp add: Sheet_find_def)
qed

lemma unknown_entries:
  assumes "map_of q k = Some (QObject ops)" and "distinct (map fst q)"
    and "\<forall>op \<in> fst ` set ops. op \<notin> set known_operators"
  shows "\<forall>kt \<in> set q. fst kt = k \<longrightarrow> key_terms js kt = Inr []"
proof (intro ballI impI)
  fix kt assume kt: "kt \<in> set q" "fst kt = k"
  then have "(k, snd kt) \<in> set q" by (metis prod.collapse)
  then have "map_of q k = Some (snd kt)" using assms(2) by simp
  then have "snd kt = QObject ops" using assms(1) by simp
  then have "kt = (k, QObject ops)" using kt(2) by (metis prod.collapse)
  then show "key_terms js kt = Inr []" using key_terms_unknown [OF assms(3)] by simp
qed

text \<open>
  Claim C10.  When the term of field \<open>k\<close> in a query is an object all of whose keys are
  outside \<open>$contains\<close>, \<open>$gt\<close>, \<open>$lt\<close>, \<open>$lte\<close>, \<open>$gte\<close> and \<open>$empty\<close>,
  \<open>buildFilter\<close> compiles the query as if the field were not there: no compiled term has
  the key \<open>k\<close>, a query of that field alone compiles to the filter that accepts every
  document, and \<open>find\<close>, \<open>update\<close> and \<open>delete\<close> behave as with the query without the
  field.
\<close>

theorem unknown_operators_ignored:
  assumes "map_of q k = Some (QObject ops)" and "distinct (map fst q)"
    and "\<forall>op \<in> fst ` set ops. op \<notin> set known_operators"
  shows "buildFilter js (Some q) = buildFilter js (Some (filter (\<lambda>kt. fst kt \<noteq> k) q)) \<and>
         (\<forall>ts. buildFilter js (Some q) = Inr ts \<longrightarrow> k \<notin> fst ` set ts) \<and>
         (q = [(k, QObject ops)] \<longrightarrow>
            buildFilterFn js q = Inr (filterFn []) \<and> (\<forall>item. filterFn [] item = Inr True)) \<and>
         Sheet_find js api sh (Some q) opts = Sheet_find js api sh (Some (filter (\<lambda>kt. fst kt \<noteq> k) q)) opts \<and>
         Sheet_update js api sh (Some q) patch = Sheet_update js api sh (Some (filter (\<lambda>kt. fst kt \<noteq> k) q)) patch \<and>
         Sheet_delete js api sh (Some q) = Sheet_delete js api sh (Some (filter (\<lambda>kt. fst kt \<noteq> k) q))"
proof -
  let ?q = "filter (\<lambda>kt. fst kt \<noteq> k) q"
  have a: "buildFilter js (Some q) = buildFilter js (Some ?q)"
    using buildFilter_without [OF unknown_entries [OF assms]] .
  have b: "\<forall>ts. buildFilter js (Some q) = Inr ts \<longrightarrow> k \<notin> fst ` set ts"
  proof (intro allI impI)
    fix ts assume "buildFilter js (Some q) = Inr ts"
    then have "buildFilter js (Some ?q) = Inr ts" using a by simp
    then have "fst ` set ts \<subseteq> fst ` set ?q" by (rule buildFilter_keys)
    then show "k \<notin> fst ` set ts" by auto
  qed
  have c: "q = [(k, QObject ops)] \<longrightarrow>
            buildFilterFn js q = Inr (filterFn []) \<and> (\<forall>item. filterFn [] item = Inr True)"
  proof
    assume q: "q = [(k, QObject ops)]"
    then have "buildFilter js (Some q) = Inr []"
      using a by (simp add: buildFilter_def)
    then show "buildFilterFn js q = Inr (filterFn []) \<and> (\<forall>item. filterFn [] item = Inr True)"
      by (simp add: buildFilterFn_def filterFn_def)
  qed
  have d: "Sheet_find js api sh (Some q) opts = Sheet_find js api sh (Some ?q) opts"
    using a by (rule Sheet_find_cong)
  have e: "Sheet_update js api sh (Some q) patch = Sheet_update js api sh (Some ?q) patch"
    using Sheet_find_cong [OF a] by (simp add: Sheet_update_def)
  have f: "Sheet_delete js api sh (Some q) = Sheet_delete js api sh (Some ?q)"
    using Sheet_find_cong [OF a] by (simp add: Sheet_delete_def)
  show ?thesis using a b c d e f by (intro conjI)
qed

theorem unknown_operators_ignored_witness:
  "map_of [(''x'', QObject [(''$foo'', Num 1)])] ''x'' = Some (QObject [(''$foo'', Num 1)]) \<and>
   distinct (map fst [(''x'', QObject [(''$foo'', Num 1)])]) \<and>
   ''$foo'' \<notin> set known_operators \<and>
   buildFilterFn plain_engine [(''x'', QObject [(''$foo'', Num 1)])] = Inr (filterFn []) \<and>
   filterFn [] [(''_row'', Num 2)] = Inr True \<and>
   Sheet_delete plain_engine accepting Undefined (Some [(''x'', QObject [(''$foo'', Num 1)])]) =
     Sheet_delete plain_engine accepting Undefined (Some [])"
proof -
  let ?q = "[(''x'', QObject [(''$foo'', Num 1)])]"
  have h1: "map_of ?q ''x'' = Some (QObject [(''$foo'', Num 1)])" by simp
  have h2: "distinct (map fst ?q)" by simp
  have h3: "\<forall>op \<in> fst ` set [(''$foo'', Num 1)]. op \<notin> set known_operators"
    by (simp add: known_operators_def)
  note t = unknown_operators_ignored [OF h1 h2 h3, of plain_engine accepting Undefined]
  have a: "buildFilterFn plain_engine ?q = Inr (filterFn []) \<and> (\<forall>item. filterFn [] item = Inr True)"
    by (rule t [THEN conjunct2, THEN conjunct2, THEN conjunct1, rule_format, OF refl])
  have b: "Sheet_delete plain_engine accepting Undefined (Some ?q) =
        Sheet_delete plain_engine accepting Undefined (Some (filter (\<lambda>kt. fst kt \<noteq> ''x'') ?q))"
    by (rule t [THEN conjunct2, THEN conjunct2, THEN conjunct2, THEN conjunct2, THEN conjunct2])
  have h3': "''$foo'' \<notin> set known_operators" using h3 by simp
  show ?thesis using h1 h2 h3' a b by simp
qed

section \<open>Properties of delete\<close>

lemma selectSheet_cached:
  "data s = Some sheets \<Longrightarrow> find (sheet_matches sel) sheets = Some sh \<Longrightarrow>
   selectSheet api sel s = (Inr sh, s)"
  using selectSheet_loaded [OF load_cached, of s sheets api sel] by simp

lemma selectSheet_cached_state: "data s = Some sheets \<Longrightarrow> snd (selectSheet api sel s) = s"
  using selectSheet_loaded [OF load_cached, of s sheets api sel] by (simp split: option.splits)

lemma list_cached_state:
  assumes "data s = Some sheets" and "\<not> fresh opts"
  shows "snd (Spreadsheet_list api opts s) = s"
proof -
  let ?sel = "case sheet opts of None \<Rightarrow> Undefined | Some v \<Rightarrow> v"
  obtain r where r: "selectSheet api ?sel s = (r, s)"
    using selectSheet_cached_state [OF assms(1), of api ?sel] by (cases "selectSheet api ?sel s") simp
  show ?thesis
    using assms(2) r by (cases r) (simp_all add: Spreadsheet_list_def Let_def and_then_def return_def)
qed

lemma lift_state: "snd (lift r s) = s"
  by (cases r) (simp_all add: lift_def throw_def return_def)

lemma and_then_lift_state: "snd (and_then (lift r) (\<lambda>x. lift (f x)) s) = s"
  by (cases r) (simp_all add: and_then_def lift_def throw_def return_def split: sum.splits)

lemma find_cached_state:
  assumes "data s = Some sheets" and "\<not> fresh opts"
  shows "snd (Sheet_find js api sh q opts s) = s"
proof -
  let ?o = "opts\<lparr>sheet := (case sheet opts of None \<Rightarrow> Some sh | Some v \<Rightarrow> Some v)\<rparr>"
  have f: "\<not> fresh ?o" using assms(2) by simp
  obtain r where r: "Spreadsheet_list api ?o s = (r, s)"
    using list_cached_state [OF assms(1) f, of api] by (cases "Spreadsheet_list api ?o s") simp
  show ?thesis
  proof (cases r)
    case (Inl e)
    with r show ?thesis by (simp add: Sheet_find_def and_then_def)
  next
    case (Inr vs)
    with r have "Sheet_find js api sh q opts s =
        and_then (lift (valuesToData vs opts)) (\<lambda>d. lift (filterData js d q opts)) s"
      by (simp add: Sheet_find_def and_then_def)
    then show ?thesis using and_then_lift_state by simp
  qed
qed

lemma delete_cached_calls:
  assumes "data s = Some sheets" and "find (sheet_matches sel) sheets = Some sh"
    and "array_sort descending rows = Inr ordered"
  shows "calls (snd (Spreadsheet_delete api (Some rows) None sel s)) =
           calls s @ (if ordered = [] then []
                      else [BatchUpdate (map (deleteDimension (sheetId sh) ROWS) ordered)])"
  using selectSheet_cached [OF assms(1,2), of api] assms(3)
  by (simp add: Spreadsheet_delete_def and_then_def Let_def request_def call_def invalidate_def
      split: option.splits)

text \<open>
  Claim C1, as amended.  \<open>delete\<close> without a query (\<open>null\<close> or \<open>undefined\<close>) fails with
  \<open>no query specified\<close> before any call and leaves the instance as it was.  With any
  query object, the empty one included, it runs \<open>find\<close>; if that fails so does
  \<open>delete\<close>, and otherwise it makes the one Adapter \<open>delete\<close> call with the row numbers of
  the documents found.  On a loaded spreadsheet whose sheet resolves, the only request
  sent is the batch that deletes these rows, highest first, and none is sent when no
  document was found.
\<close>

theorem delete_needs_query:
  "Sheet_delete js api this_sheet None s = (Inl (Error ''no query specified''), s) \<and>
   (\<forall>found s'. Sheet_find js api this_sheet (Some q) no_options s = (Inr found, s') \<longrightarrow>
      Sheet_delete js api this_sheet (Some q) s =
        Spreadsheet_delete api (Some (map (\<lambda>item. get_prop item ''_row'') (docs found))) None
          this_sheet s') \<and>
   (\<forall>e s'. Sheet_find js api this_sheet (Some q) no_options s = (Inl e, s') \<longrightarrow>
      Sheet_delete js api this_sheet (Some q) s = (Inl e, s')) \<and>
   (\<forall>sheets sh found ordered.
      data s = Some sheets \<and> find (sheet_matches this_sheet) sheets = Some sh \<and>
      fst (Sheet_find js api this_sheet (Some q) no_options s) = Inr found \<and>
      array_sort descending (map (\<lambda>item. get_prop item ''_row'') (docs found)) = Inr ordered \<longrightarrow>
      calls (snd (Sheet_delete js api this_sheet (Some q) s)) =
        calls s @ (if ordered = [] then []
                   else [BatchUpdate (map (deleteDimension (sheetId sh) ROWS) ordered)]))"
proof -
  have a: "Sheet_delete js api this_sheet None s = (Inl (Error ''no query specified''), s)"
    by (simp add: Sheet_delete_def throw_def)
  have b: "\<forall>found s'. Sheet_find js api this_sheet (Some q) no_options s = (Inr found, s') \<longrightarrow>
      Sheet_delete js api this_sheet (Some q) s =
        Spreadsheet_delete api (Some (map (\<lambda>item. get_prop item ''_row'') (docs found))) None
          this_sheet s'"
    by (simp add: Sheet_delete_def and_then_def)
  have c: "\<forall>e s'. Sheet_find js api this_sheet (Some q) no_options s = (Inl e, s') \<longrightarrow>
      Sheet_delete js api this_sheet (Some q) s = (Inl e, s')"
    by (simp add: Sheet_delete_def and_then_def)
  have d: "\<forall>sheets sh found ordered.
      data s = Some sheets \<and> find (sheet_matches this_sheet) sheets = Some sh \<and>
      fst (Sheet_find js api this_sheet (Some q) no_options s) = Inr found \<and>
      array_sort descending (map (\<lambda>item. get_prop item ''_row'') (docs found)) = Inr ordered \<longrightarrow>
      calls (snd (Sheet_delete js api this_sheet (Some q) s)) =
        calls s @ (if ordered = [] then []
                   else [BatchUpdate (map (deleteDimension (sheetId sh) ROWS) ordered)])"
  proof (intro allI impI, elim conjE)
    fix sheets sh found ordered
    assume h: "data s = Some sheets" "find (sheet_matches this_sheet) sheets = Some sh"
      "fst (Sheet_find js api this_sheet (Some q) no_options s) = Inr found"
      "array_sort descending (map (\<lambda>item. get_prop item ''_row'') (docs found)) = Inr ordered"
    have nf: "\<not> fresh no_options" by (simp add: no_options_def)
    have "snd (Sheet_find js api this_sheet (Some q) no_options s) = s"
      using find_cached_state [OF h(1) nf] .
    with h(3) have "Sheet_find js api this_sheet (Some q) no_options s = (Inr found, s)"
      by (metis prod.collapse)
    then have "Sheet_delete js api this_sheet (Some q) s =
        Spreadsheet_delete api (Some (map (\<lambda>item. get_prop item ''_row'') (docs found))) None
          this_sheet s"
      using b by blast
    then show "calls (snd (Sheet_delete js api this_sheet (Some q) s)) =
        calls s @ (if ordered = [] then []
                   else [BatchUpdate (map (deleteDimension (sheetId sh) ROWS) ordered)])"
      using delete_cached_calls [OF h(1,2,4)] by simp
  qed
  show ?thesis using a b c d by (intro conjI)
qed

theorem delete_needs_query_witness:
  "Sheet_find plain_engine accepting Undefined (Some []) no_options sample_cache =
     (Inr \<lparr>docs = [[(''_row'', Num 2), (''name'', Str ''a'')],
                   [(''_row'', Num 3), (''name'', Str ''b''), (''age'', Str ''7'')]],
            attached_header = None\<rparr>, sample_cache) \<and>
   Sheet_delete plain_engine accepting Undefined (Some []) sample_cache =
     Spreadsheet_delete accepting (Some [Num 2, Num 3]) None Undefined sample_cache \<and>
   Sheet_find plain_engine accepting (Str ''nope'') (Some []) no_options sample_cache =
     (Inl (Error ''sheet not found''), sample_cache) \<and>
   Sheet_delete plain_engine accepting (Str ''nope'') (Some []) sample_cache =
     (Inl (Error ''sheet not found''), sample_cache) \<and>
   data sample_cache = Some [sample_sheet] \<and>
   find (sheet_matches Undefined) [sample_sheet] = Some sample_sheet \<and>
   array_sort descending [Num 2, Num 3] = Inr [Num 3, Num 2] \<and>
   calls (snd (Sheet_delete plain_engine accepting Undefined (Some []) sample_cache)) =
     calls sample_cache @ [BatchUpdate (map (deleteDimension (sheetId sample_sheet) ROWS) [Num 3, Num 2])]"
proof -
  let ?found = "\<lparr>docs = [[(''_row'', Num 2), (''name'', Str ''a'')],
                   [(''_row'', Num 3), (''name'', Str ''b''), (''age'', Str ''7'')]],
            attached_header = None\<rparr>"
  have h1: "Sheet_find plain_engine accepting Undefined (Some []) no_options sample_cache =
     (Inr ?found, sample_cache)"
    by code_simp
  have h2: "Sheet_find plain_engine accepting (Str ''nope'') (Some []) no_options sample_cache =
     (Inl (Error ''sheet not found''), sample_cache)"
    by code_simp
  have h3: "data sample_cache = Some [sample_sheet]" by (simp add: sample_cache_def)
  have h4: "find (sheet_matches Undefined) [sample_sheet] = Some sample_sheet" by code_simp
  have h5: "array_sort descending [Num 2, Num 3] = Inr [Num 3, Num 2]" by code_simp
  have rows: "map (\<lambda>item. get_prop item ''_row'') (docs ?found) = [Num 2, Num 3]" by code_simp
  note t = delete_needs_query [of plain_engine accepting Undefined sample_cache "[]"]
  note u = delete_needs_query [of plain_engine accepting "Str ''nope''" sample_cache "[]"]
  have a: "Sheet_delete plain_engine accepting Undefined (Some []) sample_cache =
     Spreadsheet_delete accepting (Some (map (\<lambda>item. get_prop item ''_row'') (docs ?found))) None
       Undefined sample_cache"
    by (rule t [THEN conjunct2, THEN conjunct1, rule_format, OF h1])
  have b: "Sheet_delete plain_engine accepting (Str ''nope'') (Some []) sample_cache =
     (Inl (Error ''sheet not found''), sample_cache)"
    by (rule u [THEN conjunct2, THEN conjunct2, THEN conjunct1, rule_format, OF h2])
  have h6: "fst (Sheet_find plain_engine accepting Undefined (Some []) no_options sample_cache) = Inr ?found"
    using h1 by simp
  have h7: "array_sort descending (map (\<lambda>item. get_prop item ''_row'') (docs ?found)) = Inr [Num 3, Num 2]"
    using h5 rows by simp
  have pre: "data sample_cache = Some [sample_sheet] \<and>
      find (sheet_matches Undefined) [sample_sheet] = Some sample_sheet \<and>
      fst (Sheet_find plain_engine accepting Undefined (Some []) no_options sample_cache) = Inr ?found \<and>
      array_sort descending (map (\<lambda>item. get_prop item ''_row'') (docs ?found)) = Inr [Num 3, Num 2]"
    using h3 h4 h6 h7 by (intro conjI)
  have c: "calls (snd (Sheet_delete plain_engine accepting Undefined (Some []) sample_cache)) =
     calls sample_cache @
       (if [Num 3, Num 2] = [] then []
        else [BatchUpdate (map (deleteDimension (sheetId sample_sheet) ROWS) [Num 3, Num 2])])"
    by (rule t [THEN conjunct2, THEN conjunct2, THEN conjunct2, rule_format, OF pre])
  show ?thesis using h1 h2 h3 h4 h5 a b c rows by simp
qed

text \<open>
  Claim C1 as stated fails for a query without fields: \<open>delete({})\<close> on the loaded
  sample does not fail, and it sends the request that deletes both data rows.
\<close>

theorem delete_empty_query_counterexample:
  "Sheet_delete plain_engine accepting Undefined (Some []) sample_cache =
     (Inr \<lparr>ok = 1, deletedRowsCount = 2, deleteColumnsCount = 0, deletedColumnsCount = Undefined\<rparr>,
      \<lparr>data = None,
       calls = [BatchUpdate [DeleteDimension 0 ROWS (Num 2) (Num 3),
                             DeleteDimension 0 ROWS (Num 1) (Num 2)]]\<rparr>)"
  by code_simp

section \<open>Properties of findOne\<close>

lemma slice_one: "e = b + 1 \<Longrightarrow> length (slice b e xs) \<le> Suc 0"
  unfolding slice_def Let_def by (cases "b < 0"; cases "e < 0"; simp; linarith)

lemma valuesToData_header_only:
  "length rows \<le> 1 \<Longrightarrow> valuesToData (Some rows) opts = Inr r \<Longrightarrow> docs r = []"
proof -
  assume l: "length rows \<le> 1" and v: "valuesToData (Some rows) opts = Inr r"
  show ?thesis
  proof (cases rows)
    case Nil
    with v show ?thesis by (auto simp: valuesToData_def)
  next
    case (Cons first rest)
    with l have rest: "rest = []" by simp
    have s0: "skipped (0, first)" by (simp add: skipped_def)
    from v Cons rest s0 show ?thesis
      by (auto simp: valuesToData_def split: sum.splits)
  qed
qed

lemma filterData_empty: "docs d = [] \<Longrightarrow> filterData js d q opts = Inr d"
  by (simp add: filterData_def)

text \<open>
  Served from the cache, \<open>findOne\<close> never returns a document: the limit of one that it
  sets for the result also makes \<open>list\<close> read a single row, and \<open>valuesToData\<close> takes
  the first row it is given for the header.
\<close>

lemma findOne_cached_none:
  assumes "\<not> fresh opts" and "findOne js api sh q opts s = (Inr d, s')"
  shows "d = None"
proof -
  let ?o = "opts\<lparr>limit := Some 1\<rparr>"
  let ?l = "?o\<lparr>sheet := (case sheet ?o of None \<Rightarrow> Some sh | Some v \<Rightarrow> Some v)\<rparr>"
  from assms(2) obtain found where f: "Sheet_find js api sh q ?o s = (Inr found, s')"
    and d: "d = (if docs found = [] then None else Some (last (docs found)))"
    by (auto simp: findOne_def and_then_def return_def split: sum.splits prod.splits)
  from f obtain vs s1 where l: "Spreadsheet_list api ?l s = (Inr vs, s1)"
    and rest: "and_then (lift (valuesToData vs ?o)) (\<lambda>data'. lift (filterData js data' q ?o)) s1 = (Inr found, s')"
    by (auto simp: Sheet_find_def and_then_def split: sum.splits prod.splits)
  from rest obtain dd where vd: "valuesToData vs ?o = Inr dd" and fd: "filterData js dd q ?o = Inr found"
    by (auto simp: and_then_def lift_def throw_def return_def split: sum.splits)
  have "docs dd = []"
  proof (cases vs)
    case None
    with vd show ?thesis by (auto simp: valuesToData_def)
  next
    case (Some rows)
    from l Some assms(1) have "length rows \<le> 1"
      by (auto simp: Spreadsheet_list_def Let_def and_then_def return_def slice_one
          split: sum.splits prod.splits option.splits)
    with vd Some show ?thesis using valuesToData_header_only by blast
  qed
  with fd have "found = dd" by (simp add: filterData_empty)
  with \<open>docs dd = []\<close> d show ?thesis by simp
qed


text \<open>
  Claim C2 at a failing input: on the loaded sample, \<open>find\<close> with the empty query
  returns two documents, and \<open>findOne\<close> with the same arguments returns none.
\<close>

theorem findOne_returns_none:
  "fst (Sheet_find plain_engine accepting Undefined (Some []) no_options sample_cache) =
     Inr \<lparr>docs = [[(''_row'', Num 2), (''name'', Str ''a'')],
                  [(''_row'', Num 3), (''name'', Str ''b''), (''age'', Str ''7'')]],
           attached_header = None\<rparr> \<and>
   findOne plain_engine accepting Undefined (Some []) no_options sample_cache = (Inr None, sample_cache)"
  by code_simp

end
